theory Spec2Isabelle
  imports Complex_Main
begin

section \<open>The immersive fullscreen controller (C++)\<close>

text \<open>
  The controller is the class \<open>ImmersiveFullscreenController\<close>: its declaration is in
  \<open>immersive_fullscreen_controller.h\<close>, its member functions are defined in the second half of
  \<open>docs/examples/local_model_classifier.cc\<close>. Every member function becomes a function from
  controller to controller; the calls it makes on its collaborators (observers, views, the
  preference store, the metrics histogram) are recorded in fields of the same record.
\<close>

subsection \<open>Data\<close>

datatype UIElement = kToolbar | kTabStrip | kBookmarksBar | kDownloadShelf | kInfoBarContainer

datatype State = kDisabled | kEnabled | kRevealed | kPinned

datatype AnimationState = kNone | kShowingUI | kHidingUI

text \<open>The three callbacks of \<open>ImmersiveFullscreenObserver\<close>.\<close>

datatype notification =
    OnImmersiveUIVisibilityChanged bool
  | OnImmersiveModeToggled bool
  | OnMouseHoverStateChanged bool

text \<open>\<open>gfx::Point\<close> and \<open>gfx::Rect\<close> of the host framework, with their C++ \<open>int\<close> coordinates
  read as integers. \<open>gfx::Rect\<close> keeps its right edge \<open>x + width\<close> in the range of \<open>int\<close>.\<close>

record Point =
  pt_x :: int
  pt_y :: int

record Rect =
  rect_x :: int
  rect_y :: int
  rect_width :: int
  rect_height :: int

definition right :: "Rect \<Rightarrow> int" where
  "right r = rect_x r + rect_width r"

text \<open>The preference store, one field for each preference of \<open>pref_names.h\<close>, and the legacy
  preference \<open>::prefs::kShowFullscreenToolbar\<close> of the host browser.\<close>

record PrefService =
  kImmersiveFullscreenEnabled :: bool
  kAutoHideDelayMs :: int
  kTopEdgeSensitivityPx :: int
  kAnimationDurationMs :: int
  kShowOnAddressBarFocus :: bool
  kShowOnKeyboardActivity :: bool
  kHasSeenIntroduction :: bool
  kRespectLegacyFullscreenPref :: bool
  kShowFullscreenToolbar :: bool

text \<open>\<open>gfx::SlideAnimation\<close> belongs to the host framework. The controller calls \<open>IsShowing\<close>,
  \<open>Show\<close>, \<open>Hide\<close>, \<open>End\<close> and \<open>SetSlideDuration\<close> on it; the model keeps the direction it was last
  sent in, whether it is running, and its duration in milliseconds.\<close>

record SlideAnimation =
  IsShowing :: bool
  is_animating :: bool
  slide_duration :: int

definition Show :: "SlideAnimation \<Rightarrow> SlideAnimation" where
  "Show a = a\<lparr>IsShowing := True, is_animating := True\<rparr>"

definition Hide :: "SlideAnimation \<Rightarrow> SlideAnimation" where
  "Hide a = a\<lparr>IsShowing := False, is_animating := True\<rparr>"

definition End :: "SlideAnimation \<Rightarrow> SlideAnimation" where
  "End a = a\<lparr>is_animating := False\<rparr>"

text \<open>
  The controller. The member names lose their trailing underscore. \<open>browser_bounds\<close> is what
  \<open>browser_view_->GetWidget()->GetWindowBoundsInScreen()\<close> returns, \<open>views\<close> lists the elements
  for which \<open>GetUIElementView\<close> returns a view, \<open>auto_hide_timer\<close> is whether the one-shot timer
  is running, the two delays are in milliseconds, and observers are identified by a number.
  The last three fields record the calls made on the collaborators, oldest first: the
  callbacks delivered to each observer, the \<open>SetVisible\<close> calls on the views, and the samples of
  the histogram \<open>Brave.ImmersiveFullscreen.Enabled\<close>.
\<close>

record controller =
  pref_service :: PrefService
  browser_bounds :: Rect
  views :: "UIElement list"
  state :: State
  animation_state :: AnimationState
  should_show_ui :: bool
  address_bar_focused :: bool
  mouse_in_top_edge :: bool
  auto_hide_timer :: bool
  auto_hide_delay :: int
  animation_duration :: int
  top_edge_sensitivity_px :: int
  show_on_address_bar_focus :: bool
  show_on_keyboard_activity :: bool
  observers :: "nat list"
  animation :: SlideAnimation
  delivered :: "(nat \<times> notification) list"
  set_visible_calls :: "(UIElement \<times> bool) list"
  histogram :: "bool list"

subsection \<open>Private member functions\<close>

definition kDefaultAutoHideDelay :: int where
  "kDefaultAutoHideDelay = 2000"

definition kDefaultAnimationDuration :: int where
  "kDefaultAnimationDuration = 300"

definition kDefaultTopEdgeSensitivity :: int where
  "kDefaultTopEdgeSensitivity = 5"

definition IsEnabled :: "controller \<Rightarrow> bool" where
  "IsEnabled s = (state s \<noteq> kDisabled)"

definition IsUIVisible :: "controller \<Rightarrow> bool" where
  "IsUIVisible s = (state s = kRevealed \<or> state s = kPinned)"

definition InitializeFromPrefs :: "controller \<Rightarrow> controller" where
  "InitializeFromPrefs s =
    (let p = pref_service s;
         d = kAutoHideDelayMs p;
         a = kAnimationDurationMs p;
         t = kTopEdgeSensitivityPx p
     in s\<lparr>auto_hide_delay := (if d = 0 then kDefaultAutoHideDelay else d),
           animation_duration := (if a = 0 then kDefaultAnimationDuration else a),
           top_edge_sensitivity_px := (if t \<le> 0 then kDefaultTopEdgeSensitivity else t),
           show_on_address_bar_focus := kShowOnAddressBarFocus p,
           show_on_keyboard_activity := kShowOnKeyboardActivity p\<rparr>)"

definition AnimateShowUI :: "controller \<Rightarrow> controller" where
  "AnimateShowUI s =
    (if animation_state s = kShowingUI then s
     else if IsShowing (animation s) then s\<lparr>animation_state := kShowingUI\<rparr>
     else s\<lparr>animation_state := kShowingUI, animation := Show (animation s)\<rparr>)"

definition AnimateHideUI :: "controller \<Rightarrow> controller" where
  "AnimateHideUI s =
    (if animation_state s = kHidingUI then s
     else if \<not> IsShowing (animation s) then s\<lparr>animation_state := kHidingUI\<rparr>
     else s\<lparr>animation_state := kHidingUI, animation := Hide (animation s)\<rparr>)"

definition CompleteAnimation :: "controller \<Rightarrow> controller" where
  "CompleteAnimation s =
    (if animation_state s = kNone then s
     else s\<lparr>animation := End (animation s), animation_state := kNone\<rparr>)"

text \<open>The sum of two C++ \<open>int\<close>s as the compiled addition gives it: in 32 bits, two's
  complement, wrapping around. \<open>IsMouseInTopEdge\<close> adds the sensitivity, a preference with no
  upper bound, to the top of the window.\<close>

definition wrap_int32 :: "int \<Rightarrow> int" where
  "wrap_int32 n = (n + 2147483648) mod 4294967296 - 2147483648"

definition IsMouseInTopEdge :: "controller \<Rightarrow> Point \<Rightarrow> bool" where
  "IsMouseInTopEdge s location_in_screen =
    (let bounds = browser_bounds s
     in pt_x location_in_screen \<ge> rect_x bounds \<and>
        pt_x location_in_screen < right bounds \<and>
        pt_y location_in_screen \<ge> rect_y bounds \<and>
        pt_y location_in_screen < wrap_int32 (rect_y bounds + top_edge_sensitivity_px s))"

definition ScheduleAutoHide :: "controller \<Rightarrow> controller" where
  "ScheduleAutoHide s = s\<lparr>auto_hide_timer := True\<rparr>"

definition CancelAutoHide :: "controller \<Rightarrow> controller" where
  "CancelAutoHide s = s\<lparr>auto_hide_timer := False\<rparr>"

text \<open>Each \<open>Notify...\<close> function calls the callback on every observer, in registration order.\<close>

definition broadcast :: "nat list \<Rightarrow> notification \<Rightarrow> (nat \<times> notification) list" where
  "broadcast os n = map (\<lambda>ob. (ob, n)) os"

definition NotifyVisibilityChanged :: "bool \<Rightarrow> controller \<Rightarrow> controller" where
  "NotifyVisibilityChanged visible s =
    s\<lparr>delivered := delivered s @ broadcast (observers s) (OnImmersiveUIVisibilityChanged visible)\<rparr>"

definition NotifyModeToggled :: "bool \<Rightarrow> controller \<Rightarrow> controller" where
  "NotifyModeToggled enabled s =
    s\<lparr>delivered := delivered s @ broadcast (observers s) (OnImmersiveModeToggled enabled)\<rparr>"

definition NotifyMouseHoverChanged :: "bool \<Rightarrow> controller \<Rightarrow> controller" where
  "NotifyMouseHoverChanged hovering s =
    s\<lparr>delivered := delivered s @ broadcast (observers s) (OnMouseHoverStateChanged hovering)\<rparr>"

definition ShouldDisableImmersiveMode :: "controller \<Rightarrow> bool" where
  "ShouldDisableImmersiveMode s =
    (if kRespectLegacyFullscreenPref (pref_service s)
     then (if kShowFullscreenToolbar (pref_service s) then True else False)
     else False)"

definition SetUIElementVisible :: "UIElement \<Rightarrow> bool \<Rightarrow> controller \<Rightarrow> controller" where
  "SetUIElementVisible element visible s =
    (if element \<in> set (views s)
     then s\<lparr>set_visible_calls := set_visible_calls s @ [(element, visible)]\<rparr>
     else s)"

definition SetAllUIElementsVisible :: "bool \<Rightarrow> controller \<Rightarrow> controller" where
  "SetAllUIElementsVisible visible s =
    SetUIElementVisible kBookmarksBar visible
      (SetUIElementVisible kTabStrip visible
        (SetUIElementVisible kToolbar visible s))"

definition OnAnimationProgressed :: "real \<Rightarrow> controller \<Rightarrow> controller" where
  "OnAnimationProgressed v s =
    (let should_be_visible = (v > 0.5)
     in SetUIElementVisible kBookmarksBar should_be_visible
          (SetUIElementVisible kTabStrip should_be_visible
            (SetUIElementVisible kToolbar should_be_visible s)))"

definition OnAnimationCompleted :: "controller \<Rightarrow> controller" where
  "OnAnimationCompleted s =
    (let s1 = s\<lparr>animation_state := kNone\<rparr>;
         should_be_visible = (state s1 = kRevealed \<or> state s1 = kPinned)
     in SetAllUIElementsVisible should_be_visible s1)"

subsection \<open>Public member functions\<close>

definition RevealUI :: "controller \<Rightarrow> controller" where
  "RevealUI s =
    (if state s = kDisabled then s
     else
       let was_visible = IsUIVisible s;
           s1 = (if state s = kEnabled then s\<lparr>state := kRevealed\<rparr> else s);
           s2 = CancelAutoHide s1;
           s3 = AnimateShowUI s2
       in if \<not> was_visible then NotifyVisibilityChanged True s3 else s3)"

definition SetEnabled :: "bool \<Rightarrow> controller \<Rightarrow> controller" where
  "SetEnabled enabled s =
    (if enabled = IsEnabled s then s
     else if enabled \<and> ShouldDisableImmersiveMode s then s
     else
       let old_state = state s;
           s1 =
             (if enabled then
                let s2 = s\<lparr>state := kEnabled\<rparr>;
                    s3 = (if \<not> kHasSeenIntroduction (pref_service s2)
                          then s2\<lparr>pref_service := (pref_service s2)\<lparr>kHasSeenIntroduction := True\<rparr>\<rparr>
                          else s2)
                in if should_show_ui s3 \<or> address_bar_focused s3
                   then RevealUI s3 else AnimateHideUI s3
              else
                SetAllUIElementsVisible True
                  (CompleteAnimation (CancelAutoHide (s\<lparr>state := kDisabled\<rparr>))))
       in if old_state \<noteq> state s1
          then (NotifyModeToggled enabled s1)\<lparr>histogram := histogram s1 @ [enabled]\<rparr>
          else s1)"

definition HideUIAfterDelay :: "controller \<Rightarrow> controller" where
  "HideUIAfterDelay s =
    (if state s = kDisabled \<or> state s = kPinned then s
     else if should_show_ui s \<or> address_bar_focused s then s
     else ScheduleAutoHide s)"

definition HideUIImmediately :: "controller \<Rightarrow> controller" where
  "HideUIImmediately s =
    (if state s = kDisabled \<or> state s = kPinned then s
     else
       let s1 = CancelAutoHide s;
           was_visible = IsUIVisible s1;
           s2 = s1\<lparr>state := kEnabled\<rparr>;
           s3 = AnimateHideUI s2
       in if was_visible then NotifyVisibilityChanged False s3 else s3)"

definition PinUI :: "controller \<Rightarrow> controller" where
  "PinUI s =
    (if state s = kDisabled then s
     else
       let s1 = CancelAutoHide s;
           was_visible = IsUIVisible s1;
           s2 = s1\<lparr>state := kPinned\<rparr>
       in if \<not> was_visible then NotifyVisibilityChanged True (AnimateShowUI s2) else s2)"

definition UnpinUI :: "controller \<Rightarrow> controller" where
  "UnpinUI s =
    (if state s \<noteq> kPinned then s
     else
       let s1 = s\<lparr>state := kRevealed\<rparr>
       in if \<not> should_show_ui s1 \<and> \<not> address_bar_focused s1 then HideUIAfterDelay s1 else s1)"

definition OnMouseMoved :: "Point \<Rightarrow> controller \<Rightarrow> controller" where
  "OnMouseMoved location_in_screen s =
    (if state s = kDisabled then s
     else
       let was_in_top_edge = mouse_in_top_edge s;
           s1 = s\<lparr>mouse_in_top_edge := IsMouseInTopEdge s location_in_screen\<rparr>;
           s2 = (if mouse_in_top_edge s1 \<noteq> was_in_top_edge
                 then NotifyMouseHoverChanged (mouse_in_top_edge s1) s1 else s1);
           old_should_show = should_show_ui s2;
           s3 = s2\<lparr>should_show_ui := mouse_in_top_edge s2\<rparr>
       in if should_show_ui s3 \<and> \<not> old_should_show then RevealUI s3
          else if \<not> should_show_ui s3 \<and> old_should_show \<and> \<not> address_bar_focused s3
          then HideUIAfterDelay s3
          else s3)"

definition OnAddressBarFocused :: "controller \<Rightarrow> controller" where
  "OnAddressBarFocused s =
    (let s1 = s\<lparr>address_bar_focused := True\<rparr>
     in if show_on_address_bar_focus s1 \<and> state s1 \<noteq> kDisabled then RevealUI s1 else s1)"

definition OnAddressBarBlurred :: "controller \<Rightarrow> controller" where
  "OnAddressBarBlurred s =
    (let s1 = s\<lparr>address_bar_focused := False\<rparr>
     in if state s1 \<noteq> kDisabled \<and> state s1 \<noteq> kPinned \<and> \<not> should_show_ui s1
        then HideUIAfterDelay s1 else s1)"

definition OnKeyboardActivity :: "controller \<Rightarrow> controller" where
  "OnKeyboardActivity s =
    (if show_on_keyboard_activity s \<and> state s \<noteq> kDisabled then RevealUI s else s)"

definition OnFullscreenStateChanged :: "bool \<Rightarrow> controller \<Rightarrow> controller" where
  "OnFullscreenStateChanged is_fullscreen s =
    (if is_fullscreen
     then (if kImmersiveFullscreenEnabled (pref_service s) then SetEnabled True s else s)
     else SetEnabled False s)"

definition OnActiveTabChanged :: "controller \<Rightarrow> controller" where
  "OnActiveTabChanged s =
    (if state s \<noteq> kDisabled
     then
       let s1 = RevealUI s
       in if state s1 \<noteq> kPinned then HideUIAfterDelay s1 else s1
     else s)"

definition OnAutoHideTimer :: "controller \<Rightarrow> controller" where
  "OnAutoHideTimer s = HideUIImmediately s"

definition TriggerAutoHideTimerForTesting :: "controller \<Rightarrow> controller" where
  "TriggerAutoHideTimerForTesting s = OnAutoHideTimer s"

definition SetAnimationDurationForTesting :: "int \<Rightarrow> controller \<Rightarrow> controller" where
  "SetAnimationDurationForTesting duration s =
    s\<lparr>animation_duration := duration, animation := (animation s)\<lparr>slide_duration := duration\<rparr>\<rparr>"

definition SetAutoHideDelayForTesting :: "int \<Rightarrow> controller \<Rightarrow> controller" where
  "SetAutoHideDelayForTesting delay s = s\<lparr>auto_hide_delay := delay\<rparr>"

text \<open>\<open>base::ObserverList\<close>: an observer is registered at most once, at the end of the list.\<close>

definition AddObserver :: "nat \<Rightarrow> controller \<Rightarrow> controller" where
  "AddObserver ob s =
    (if ob \<in> set (observers s) then s else s\<lparr>observers := observers s @ [ob]\<rparr>)"

definition RemoveObserver :: "nat \<Rightarrow> controller \<Rightarrow> controller" where
  "RemoveObserver ob s = s\<lparr>observers := removeAll ob (observers s)\<rparr>"


subsection \<open>Construction and runs\<close>

text \<open>The constructor: the members take their in-class initialisers, then \<open>InitializeFromPrefs\<close>
  runs and the animation receives its duration. The tween type of the animation and the
  registration as an observer of the widget (undone by the destructor and by
  \<open>OnWidgetDestroying\<close>) do not touch the members and are left out.\<close>

definition ImmersiveFullscreenController :: "PrefService \<Rightarrow> Rect \<Rightarrow> UIElement list \<Rightarrow> controller" where
  "ImmersiveFullscreenController prefs bounds vs =
    (let s1 = InitializeFromPrefs
               \<lparr>pref_service = prefs, browser_bounds = bounds, views = vs,
                state = kDisabled, animation_state = kNone, should_show_ui = False,
                address_bar_focused = False, mouse_in_top_edge = False,
                auto_hide_timer = False, auto_hide_delay = 0, animation_duration = 0,
                top_edge_sensitivity_px = 5, show_on_address_bar_focus = True,
                show_on_keyboard_activity = False, observers = [],
                animation = \<lparr>IsShowing = False, is_animating = False, slide_duration = 0\<rparr>,
                delivered = [], set_visible_calls = [], histogram = []\<rparr>
     in s1\<lparr>animation := (animation s1)\<lparr>slide_duration := animation_duration s1\<rparr>\<rparr>)"

text \<open>
  Everything that can happen to a controller: a call of a public member function, the
  one-shot timer firing (it is no longer running when its callback runs), a callback of the
  animation (\<open>AnimationEnded\<close> comes from an animation that has stopped), and a change made by
  the environment to the preference store or to the window bounds. Callbacks are not tied to
  a running timer or animation here, so the runs below include every run of the real system.
\<close>

datatype event =
    Call_SetEnabled bool
  | Call_RevealUI
  | Call_HideUIAfterDelay
  | Call_HideUIImmediately
  | Call_PinUI
  | Call_UnpinUI
  | Call_OnMouseMoved Point
  | Call_OnAddressBarFocused
  | Call_OnAddressBarBlurred
  | Call_OnKeyboardActivity
  | Call_OnFullscreenStateChanged bool
  | Call_OnActiveTabChanged
  | Call_AddObserver nat
  | Call_RemoveObserver nat
  | Call_SetAnimationDurationForTesting int
  | Call_SetAutoHideDelayForTesting int
  | Call_TriggerAutoHideTimerForTesting
  | AutoHideTimer_Fired
  | AnimationProgressed real
  | AnimationEnded
  | Prefs_Changed PrefService
  | Bounds_Changed Rect

fun step :: "event \<Rightarrow> controller \<Rightarrow> controller" where
  "step (Call_SetEnabled enabled) s = SetEnabled enabled s"
| "step Call_RevealUI s = RevealUI s"
| "step Call_HideUIAfterDelay s = HideUIAfterDelay s"
| "step Call_HideUIImmediately s = HideUIImmediately s"
| "step Call_PinUI s = PinUI s"
| "step Call_UnpinUI s = UnpinUI s"
| "step (Call_OnMouseMoved p) s = OnMouseMoved p s"
| "step Call_OnAddressBarFocused s = OnAddressBarFocused s"
| "step Call_OnAddressBarBlurred s = OnAddressBarBlurred s"
| "step Call_OnKeyboardActivity s = OnKeyboardActivity s"
| "step (Call_OnFullscreenStateChanged is_fullscreen) s = OnFullscreenStateChanged is_fullscreen s"
| "step Call_OnActiveTabChanged s = OnActiveTabChanged s"
| "step (Call_AddObserver ob) s = AddObserver ob s"
| "step (Call_RemoveObserver ob) s = RemoveObserver ob s"
| "step (Call_SetAnimationDurationForTesting d) s = SetAnimationDurationForTesting d s"
| "step (Call_SetAutoHideDelayForTesting d) s = SetAutoHideDelayForTesting d s"
| "step Call_TriggerAutoHideTimerForTesting s = TriggerAutoHideTimerForTesting s"
| "step AutoHideTimer_Fired s = OnAutoHideTimer (s\<lparr>auto_hide_timer := False\<rparr>)"
| "step (AnimationProgressed v) s = OnAnimationProgressed v s"
| "step AnimationEnded s = OnAnimationCompleted (s\<lparr>animation := End (animation s)\<rparr>)"
| "step (Prefs_Changed p) s = s\<lparr>pref_service := p\<rparr>"
| "step (Bounds_Changed r) s = s\<lparr>browser_bounds := r\<rparr>"

fun run :: "controller \<Rightarrow> event list \<Rightarrow> controller" where
  "run s [] = s"
| "run s (e # es) = run (step e s) es"

text \<open>What the views were last told: the last \<open>SetVisible\<close> call on an element, if any.\<close>

definition last_command :: "(UIElement \<times> bool) list \<Rightarrow> UIElement \<Rightarrow> bool option" where
  "last_command cs e = map_of (rev cs) e"

text \<open>How many times a callback was delivered to an observer.\<close>

definition times_delivered :: "nat \<Rightarrow> notification \<Rightarrow> (nat \<times> notification) list \<Rightarrow> nat" where
  "times_delivered ob n ds = length (filter (\<lambda>d. d = (ob, n)) ds)"

section \<open>The page-side event handler (JavaScript)\<close>

text \<open>
  The class \<open>ImmersiveFullscreenEventHandler\<close> is the script at the end of
  \<open>immersive_fullscreen_controller_unittest.cc\<close>. Its fields keep their names. The browser
  around it is part of the record: the ids of the pending timeouts and the next id
  \<open>setTimeout\<close> returns (ids are greater than zero, so the field \<open>autoHideTimer\<close> is truthy
  exactly when it holds an id), whether the address bar exists and is the active element,
  whether the binding \<open>window.chrome.immersiveFullscreen\<close> exists, the custom events dispatched
  on the document and the calls made on the binding, oldest first. Pixel coordinates are
  integers. The CSS classes set on the body, the debug log and the timestamps inside the
  custom events are left out.
\<close>

record KeyboardEvent =
  key :: string
  ctrlKey :: bool
  metaKey :: bool
  altKey :: bool
  shiftKey :: bool

datatype custom_event =
    immersive_ui_visibility_changed bool string
  | immersive_mode_toggled bool

datatype binding_call =
    onMouseMoved int int
  | onKeyboardActivity string bool bool bool bool
  | onAddressBarFocused
  | onAddressBarBlurred
  | onFullscreenStateChanged bool

record handler =
  isEnabled :: bool
  isUIVisible :: bool
  mouseTrackingActive :: bool
  lastMousePosition :: "int \<times> int"
  topEdgeSensitivity :: int
  autoHideTimer :: "nat option"
  autoHideDelay :: int
  timeouts :: "nat list"
  next_timeout :: nat
  addressBarIsActiveElement :: bool
  immersiveFullscreen :: bool
  dispatched :: "custom_event list"
  binding_calls :: "binding_call list"

definition new_handler :: handler where
  "new_handler =
    \<lparr>isEnabled = False, isUIVisible = True, mouseTrackingActive = False,
     lastMousePosition = (0, 0), topEdgeSensitivity = 5, autoHideTimer = None,
     autoHideDelay = 2000, timeouts = [], next_timeout = 1,
     addressBarIsActiveElement = False, immersiveFullscreen = False,
     dispatched = [], binding_calls = []\<rparr>"

definition isMouseInTopEdge :: "handler \<Rightarrow> int \<Rightarrow> bool" where
  "isMouseInTopEdge h mouseY = (mouseY \<le> topEdgeSensitivity h)"

definition isAddressBarFocused :: "handler \<Rightarrow> bool" where
  "isAddressBarFocused h = addressBarIsActiveElement h"

definition dispatchUIVisibilityEvent :: "bool \<Rightarrow> string \<Rightarrow> handler \<Rightarrow> handler" where
  "dispatchUIVisibilityEvent visible reason h =
    h\<lparr>dispatched := dispatched h @ [immersive_ui_visibility_changed visible reason]\<rparr>"

definition dispatchModeToggleEvent :: "bool \<Rightarrow> handler \<Rightarrow> handler" where
  "dispatchModeToggleEvent enabled h =
    h\<lparr>dispatched := dispatched h @ [immersive_mode_toggled enabled]\<rparr>"

definition notify_binding :: "binding_call \<Rightarrow> handler \<Rightarrow> handler" where
  "notify_binding c h =
    (if immersiveFullscreen h then h\<lparr>binding_calls := binding_calls h @ [c]\<rparr> else h)"

definition cancelAutoHide :: "handler \<Rightarrow> handler" where
  "cancelAutoHide h =
    (case autoHideTimer h of
       None \<Rightarrow> h
     | Some t \<Rightarrow> h\<lparr>timeouts := removeAll t (timeouts h), autoHideTimer := None\<rparr>)"

definition revealUI :: "string \<Rightarrow> handler \<Rightarrow> handler" where
  "revealUI reason h =
    (if \<not> isEnabled h \<or> isUIVisible h then h
     else dispatchUIVisibilityEvent True reason (cancelAutoHide (h\<lparr>isUIVisible := True\<rparr>)))"

definition hideUI :: "string \<Rightarrow> handler \<Rightarrow> handler" where
  "hideUI reason h =
    (if \<not> isEnabled h \<or> \<not> isUIVisible h then h
     else if isAddressBarFocused h then h
     else dispatchUIVisibilityEvent False reason (h\<lparr>isUIVisible := False\<rparr>))"

definition scheduleAutoHide :: "handler \<Rightarrow> handler" where
  "scheduleAutoHide h =
    (let h1 = cancelAutoHide h;
         t = next_timeout h1
     in h1\<lparr>autoHideTimer := Some t, timeouts := timeouts h1 @ [t], next_timeout := Suc t\<rparr>)"

text \<open>The pending timeout \<open>t\<close> expires: the browser drops it and runs the callback that
  \<open>scheduleAutoHide\<close> gave it.\<close>

definition timeout_expires :: "nat \<Rightarrow> handler \<Rightarrow> handler" where
  "timeout_expires t h =
    (if t \<in> set (timeouts h)
     then hideUI ''auto_hide_timer'' (h\<lparr>timeouts := removeAll t (timeouts h)\<rparr>)
     else h)"

definition updateTopEdgeBounds :: "handler \<Rightarrow> handler" where
  "updateTopEdgeBounds h = h"

definition handleMouseMove :: "int \<times> int \<Rightarrow> int \<times> int \<Rightarrow> handler \<Rightarrow> handler" where
  "handleMouseMove client screen h =
    (if \<not> isEnabled h then h
     else
       let h1 = h\<lparr>lastMousePosition := client\<rparr>;
           isInTopEdge = isMouseInTopEdge h1 (snd client);
           h2 = (if isInTopEdge \<and> \<not> isUIVisible h1 then revealUI ''mouse_hover'' h1
                 else if \<not> isInTopEdge \<and> isUIVisible h1 \<and> \<not> isAddressBarFocused h1
                 then scheduleAutoHide h1
                 else h1)
       in notify_binding (onMouseMoved (fst screen) (snd screen)) h2)"

definition handleKeyDown :: "KeyboardEvent \<Rightarrow> handler \<Rightarrow> handler" where
  "handleKeyDown ev h =
    (if \<not> isEnabled h then h
     else
       let shouldReveal =
             (ctrlKey ev \<or> metaKey ev \<or> altKey ev \<or>
              key ev = ''F11'' \<or> key ev = ''Escape'' \<or> key ev = ''Tab'');
           h1 = (if shouldReveal then revealUI ''keyboard_shortcut'' h else h)
       in notify_binding
            (onKeyboardActivity (key ev) (ctrlKey ev) (altKey ev) (metaKey ev) (shiftKey ev)) h1)"

definition handleAddressBarFocus :: "handler \<Rightarrow> handler" where
  "handleAddressBarFocus h =
    (if \<not> isEnabled h then h
     else notify_binding onAddressBarFocused
            (cancelAutoHide (revealUI ''address_bar_focus'' h)))"

definition handleAddressBarBlur :: "handler \<Rightarrow> handler" where
  "handleAddressBarBlur h =
    (if \<not> isEnabled h then h
     else
       let h1 = (if \<not> isMouseInTopEdge h (snd (lastMousePosition h))
                 then scheduleAutoHide h else h)
       in notify_binding onAddressBarBlurred h1)"

definition handleWindowResize :: "handler \<Rightarrow> handler" where
  "handleWindowResize h =
    (if \<not> isEnabled h then h
     else scheduleAutoHide (revealUI ''window_resize'' (updateTopEdgeBounds h)))"

definition enableImmersiveMode :: "handler \<Rightarrow> handler" where
  "enableImmersiveMode h =
    (if isEnabled h then h
     else
       let h1 = h\<lparr>isEnabled := True, isUIVisible := False\<rparr>;
           h2 = (if isAddressBarFocused h1 \<or> isMouseInTopEdge h1 (snd (lastMousePosition h1))
                 then revealUI ''initial_state'' h1 else h1)
       in dispatchModeToggleEvent True h2)"

definition disableImmersiveMode :: "handler \<Rightarrow> handler" where
  "disableImmersiveMode h =
    (if \<not> isEnabled h then h
     else dispatchModeToggleEvent False
            (cancelAutoHide (h\<lparr>isEnabled := False, isUIVisible := True\<rparr>)))"

definition handleFullscreenChange :: "bool \<Rightarrow> handler \<Rightarrow> handler" where
  "handleFullscreenChange isFullscreen h =
    notify_binding (onFullscreenStateChanged isFullscreen)
      (if isFullscreen then enableImmersiveMode h else disableImmersiveMode h)"

text \<open>The listener that \<open>observeTabChanges\<close> registers on \<open>chrome.tabs.onActivated\<close>.\<close>

definition onTabActivated :: "handler \<Rightarrow> handler" where
  "onTabActivated h =
    (if isEnabled h then scheduleAutoHide (revealUI ''tab_change'' h) else h)"

text \<open>\<open>updateConfig\<close> takes an object whose two properties may be undefined.\<close>

record config =
  config_topEdgeSensitivity :: "int option"
  config_autoHideDelay :: "int option"

definition updateConfig :: "config \<Rightarrow> handler \<Rightarrow> handler" where
  "updateConfig c h =
    (let h1 = (case config_topEdgeSensitivity c of
                 Some v \<Rightarrow> h\<lparr>topEdgeSensitivity := v\<rparr> | None \<Rightarrow> h)
     in case config_autoHideDelay c of
          Some v \<Rightarrow> h1\<lparr>autoHideDelay := v\<rparr> | None \<Rightarrow> h1)"

definition destroy :: "handler \<Rightarrow> handler" where
  "destroy h = disableImmersiveMode (cancelAutoHide h)"

section \<open>Invariant, observations and the test fixture\<close>

text \<open>What holds of the controller after every run: a pinned or disabled controller has no
  timer running, a disabled one has no animation in flight, an animation that runs has a
  direction, the two pointer flags agree, and no observer is registered twice.\<close>

definition controller_inv :: "controller \<Rightarrow> bool" where
  "controller_inv s =
    ((state s = kPinned \<longrightarrow> \<not> auto_hide_timer s) \<and>
     (state s = kDisabled \<longrightarrow> \<not> auto_hide_timer s \<and> animation_state s = kNone) \<and>
     (is_animating (animation s) \<longrightarrow> animation_state s \<noteq> kNone) \<and>
     should_show_ui s = mouse_in_top_edge s \<and>
     distinct (observers s))"


text \<open>What holds of the animation after every run: its direction agrees with the animation
  state, it was last sent to show in the modes \<open>kRevealed\<close> and \<open>kPinned\<close>, and to hide in the
  mode \<open>kEnabled\<close>.\<close>

definition animation_inv :: "controller \<Rightarrow> bool" where
  "animation_inv s =
    ((animation_state s = kHidingUI \<longrightarrow> \<not> IsShowing (animation s)) \<and>
     (animation_state s = kShowingUI \<longrightarrow> IsShowing (animation s)) \<and>
     (state s = kRevealed \<or> state s = kPinned \<longrightarrow>
        IsShowing (animation s) \<and> animation_state s \<noteq> kHidingUI) \<and>
     (state s = kEnabled \<longrightarrow> \<not> IsShowing (animation s) \<and> animation_state s \<noteq> kShowingUI))"


text \<open>Runs in which the animation calls back only while it is running.\<close>

fun can_occur :: "event \<Rightarrow> controller \<Rightarrow> bool" where
  "can_occur (AnimationProgressed v) s = is_animating (animation s)"
| "can_occur AnimationEnded s = is_animating (animation s)"
| "can_occur e s = True"

fun admissible :: "controller \<Rightarrow> event list \<Rightarrow> bool" where
  "admissible s [] = True"
| "admissible s (e # es) = (can_occur e s \<and> admissible (step e s) es)"

text \<open>What holds of the \<open>SetVisible\<close> calls after such a run: they went to views that exist, of
  the toolbar, the tab strip or the bookmarks bar, and in the mode \<open>kDisabled\<close> no element was
  last told to hide.\<close>

definition surfaces_inv :: "controller \<Rightarrow> bool" where
  "surfaces_inv s =
    ((\<forall>c \<in> set (set_visible_calls s).
        fst c \<in> set (views s) \<and> fst c \<in> {kToolbar, kTabStrip, kBookmarksBar}) \<and>
     (state s = kDisabled \<longrightarrow> (\<forall>e. last_command (set_visible_calls s) e \<noteq> Some False)))"

text \<open>The callbacks one observer received, in order.\<close>

definition delivered_to :: "nat \<Rightarrow> (nat \<times> notification) list \<Rightarrow> notification list" where
  "delivered_to ob ds = map snd (filter (\<lambda>d. fst d = ob) ds)"

text \<open>The fixture of \<open>ImmersiveFullscreenControllerTest::SetUp\<close>: the registered preferences
  (the legacy preference is not set), a window of 1200 by 800 at the origin, views for the
  toolbar, the tab strip and the bookmarks bar, and the test timings.\<close>

definition test_prefs :: PrefService where
  "test_prefs =
    \<lparr>kImmersiveFullscreenEnabled = True, kAutoHideDelayMs = 2000, kTopEdgeSensitivityPx = 5,
     kAnimationDurationMs = 300, kShowOnAddressBarFocus = True, kShowOnKeyboardActivity = False,
     kHasSeenIntroduction = False, kRespectLegacyFullscreenPref = True,
     kShowFullscreenToolbar = False\<rparr>"

definition test_bounds :: Rect where
  "test_bounds = \<lparr>rect_x = 0, rect_y = 0, rect_width = 1200, rect_height = 800\<rparr>"

definition test_controller :: controller where
  "test_controller =
    SetAutoHideDelayForTesting 10
      (SetAnimationDurationForTesting 1
        (ImmersiveFullscreenController test_prefs test_bounds [kToolbar, kTabStrip, kBookmarksBar]))"


text \<open>The fixture with one observer after this run: the pointer enters the top edge, the
  mode is switched off, the pointer leaves (the controller ignores moves while disabled), the
  mode is switched on again and the interface is hidden.\<close>

definition stale_hover :: controller where
  "stale_hover =
    run test_controller
      [Call_AddObserver 1, Call_SetEnabled True, Call_OnMouseMoved \<lparr>pt_x = 600, pt_y = 2\<rparr>,
       Call_SetEnabled False, Call_OnMouseMoved \<lparr>pt_x = 600, pt_y = 100\<rparr>,
       Call_SetEnabled True, Call_HideUIImmediately]"


text \<open>A handler that is enabled with the interface hidden: created, enabled (the pointer is
  still at its initial position in the top edge, so the interface is revealed), the pointer
  moved to the middle of the page, and the timeout that this scheduled expired.\<close>

definition hidden_handler :: handler where
  "hidden_handler =
    timeout_expires 1 (handleMouseMove (600, 300) (600, 300) (enableImmersiveMode new_handler))"

section \<open>Lemmas about the controller\<close>

lemmas controller_defs =
  ImmersiveFullscreenController_def InitializeFromPrefs_def kDefaultAutoHideDelay_def
  kDefaultAnimationDuration_def kDefaultTopEdgeSensitivity_def IsEnabled_def IsUIVisible_def
  AnimateShowUI_def AnimateHideUI_def CompleteAnimation_def Show_def Hide_def End_def
  IsMouseInTopEdge_def wrap_int32_def right_def ScheduleAutoHide_def CancelAutoHide_def broadcast_def
  NotifyVisibilityChanged_def NotifyModeToggled_def NotifyMouseHoverChanged_def
  ShouldDisableImmersiveMode_def SetUIElementVisible_def SetAllUIElementsVisible_def
  OnAnimationProgressed_def OnAnimationCompleted_def RevealUI_def SetEnabled_def
  HideUIAfterDelay_def HideUIImmediately_def PinUI_def UnpinUI_def OnMouseMoved_def
  OnAddressBarFocused_def OnAddressBarBlurred_def OnKeyboardActivity_def
  OnFullscreenStateChanged_def OnActiveTabChanged_def OnAutoHideTimer_def
  TriggerAutoHideTimerForTesting_def SetAnimationDurationForTesting_def
  SetAutoHideDelayForTesting_def AddObserver_def RemoveObserver_def

lemmas test_defs = test_prefs_def test_bounds_def test_controller_def

lemmas handler_defs =
  new_handler_def isMouseInTopEdge_def isAddressBarFocused_def dispatchUIVisibilityEvent_def
  dispatchModeToggleEvent_def notify_binding_def cancelAutoHide_def revealUI_def hideUI_def
  scheduleAutoHide_def timeout_expires_def updateTopEdgeBounds_def handleMouseMove_def
  handleKeyDown_def handleAddressBarFocus_def handleAddressBarBlur_def handleWindowResize_def
  enableImmersiveMode_def disableImmersiveMode_def handleFullscreenChange_def

lemma hidden_handler_value:
  "hidden_handler =
     \<lparr>isEnabled = True, isUIVisible = False, mouseTrackingActive = False,
      lastMousePosition = (600, 300), topEdgeSensitivity = 5, autoHideTimer = Some 1,
      autoHideDelay = 2000, timeouts = [], next_timeout = 2,
      addressBarIsActiveElement = False, immersiveFullscreen = False,
      dispatched = [immersive_ui_visibility_changed True ''initial_state'',
                    immersive_mode_toggled True,
                    immersive_ui_visibility_changed False ''auto_hide_timer''],
      binding_calls = []\<rparr>"
  by (simp add: hidden_handler_def handler_defs Let_def)

lemma AnimateShowUI_fields [simp]:
  "state (AnimateShowUI s) = state s"
  "auto_hide_timer (AnimateShowUI s) = auto_hide_timer s"
  "animation_state (AnimateShowUI s) = kShowingUI"
  "should_show_ui (AnimateShowUI s) = should_show_ui s"
  "mouse_in_top_edge (AnimateShowUI s) = mouse_in_top_edge s"
  "address_bar_focused (AnimateShowUI s) = address_bar_focused s"
  "observers (AnimateShowUI s) = observers s"
  "delivered (AnimateShowUI s) = delivered s"
  "pref_service (AnimateShowUI s) = pref_service s"
  by (simp_all add: AnimateShowUI_def)

lemma AnimateHideUI_fields [simp]:
  "state (AnimateHideUI s) = state s"
  "auto_hide_timer (AnimateHideUI s) = auto_hide_timer s"
  "animation_state (AnimateHideUI s) = kHidingUI"
  "should_show_ui (AnimateHideUI s) = should_show_ui s"
  "mouse_in_top_edge (AnimateHideUI s) = mouse_in_top_edge s"
  "address_bar_focused (AnimateHideUI s) = address_bar_focused s"
  "observers (AnimateHideUI s) = observers s"
  "delivered (AnimateHideUI s) = delivered s"
  "pref_service (AnimateHideUI s) = pref_service s"
  by (simp_all add: AnimateHideUI_def)

lemma Notify_fields [simp]:
  "state (NotifyVisibilityChanged b s) = state s"
  "auto_hide_timer (NotifyVisibilityChanged b s) = auto_hide_timer s"
  "animation_state (NotifyVisibilityChanged b s) = animation_state s"
  "animation (NotifyVisibilityChanged b s) = animation s"
  "should_show_ui (NotifyVisibilityChanged b s) = should_show_ui s"
  "mouse_in_top_edge (NotifyVisibilityChanged b s) = mouse_in_top_edge s"
  "address_bar_focused (NotifyVisibilityChanged b s) = address_bar_focused s"
  "observers (NotifyVisibilityChanged b s) = observers s"
  "pref_service (NotifyVisibilityChanged b s) = pref_service s"
  "state (NotifyModeToggled b s) = state s"
  "auto_hide_timer (NotifyModeToggled b s) = auto_hide_timer s"
  "animation_state (NotifyModeToggled b s) = animation_state s"
  "animation (NotifyModeToggled b s) = animation s"
  "should_show_ui (NotifyModeToggled b s) = should_show_ui s"
  "mouse_in_top_edge (NotifyModeToggled b s) = mouse_in_top_edge s"
  "address_bar_focused (NotifyModeToggled b s) = address_bar_focused s"
  "observers (NotifyModeToggled b s) = observers s"
  "pref_service (NotifyModeToggled b s) = pref_service s"
  "state (NotifyMouseHoverChanged b s) = state s"
  "auto_hide_timer (NotifyMouseHoverChanged b s) = auto_hide_timer s"
  "animation_state (NotifyMouseHoverChanged b s) = animation_state s"
  "animation (NotifyMouseHoverChanged b s) = animation s"
  "should_show_ui (NotifyMouseHoverChanged b s) = should_show_ui s"
  "mouse_in_top_edge (NotifyMouseHoverChanged b s) = mouse_in_top_edge s"
  "address_bar_focused (NotifyMouseHoverChanged b s) = address_bar_focused s"
  "observers (NotifyMouseHoverChanged b s) = observers s"
  "pref_service (NotifyMouseHoverChanged b s) = pref_service s"
  by (simp_all add: NotifyVisibilityChanged_def NotifyModeToggled_def NotifyMouseHoverChanged_def)

lemma controller_inv_AnimateShowUI:
  "controller_inv s \<Longrightarrow> state s \<noteq> kDisabled \<Longrightarrow> controller_inv (AnimateShowUI s)"
  by (simp add: controller_inv_def)

lemma controller_inv_AnimateHideUI:
  "controller_inv s \<Longrightarrow> state s \<noteq> kDisabled \<Longrightarrow> controller_inv (AnimateHideUI s)"
  by (simp add: controller_inv_def)

lemma controller_inv_Notify:
  "controller_inv (NotifyVisibilityChanged b s) = controller_inv s"
  "controller_inv (NotifyModeToggled b s) = controller_inv s"
  "controller_inv (NotifyMouseHoverChanged b s) = controller_inv s"
  by (simp_all add: controller_inv_def)

lemma controller_inv_RevealUI: "controller_inv s \<Longrightarrow> controller_inv (RevealUI s)"
  by (simp add: RevealUI_def Let_def controller_inv_Notify controller_inv_AnimateShowUI)
     (auto simp: controller_inv_def CancelAutoHide_def)


lemma controller_inv_HideUIAfterDelay: "controller_inv s \<Longrightarrow> controller_inv (HideUIAfterDelay s)"
  by (auto simp: HideUIAfterDelay_def controller_inv_def ScheduleAutoHide_def)

lemma controller_inv_HideUIImmediately: "controller_inv s \<Longrightarrow> controller_inv (HideUIImmediately s)"
  by (simp add: HideUIImmediately_def Let_def controller_inv_Notify controller_inv_AnimateHideUI)
     (auto simp: controller_inv_def CancelAutoHide_def)

lemma controller_inv_PinUI: "controller_inv s \<Longrightarrow> controller_inv (PinUI s)"
  by (simp add: PinUI_def Let_def controller_inv_Notify controller_inv_AnimateShowUI)
     (auto simp: controller_inv_def CancelAutoHide_def)

lemma controller_inv_UnpinUI: "controller_inv s \<Longrightarrow> controller_inv (UnpinUI s)"
proof -
  assume inv: "controller_inv s"
  then have "controller_inv (s\<lparr>state := kRevealed\<rparr>)"
    by (simp add: controller_inv_def)
  then show ?thesis
    using inv by (simp add: UnpinUI_def Let_def controller_inv_HideUIAfterDelay)
qed

lemma controller_inv_SetEnabled: "controller_inv s \<Longrightarrow> controller_inv (SetEnabled enabled s)"
proof -
  assume inv: "controller_inv s"
  let ?p = "(pref_service s)\<lparr>kHasSeenIntroduction := True\<rparr>"
  have a: "controller_inv (s\<lparr>state := kEnabled\<rparr>)"
    and b: "controller_inv (s\<lparr>state := kEnabled, pref_service := ?p\<rparr>)"
    using inv by (simp_all add: controller_inv_def)
  have c: "controller_inv (SetAllUIElementsVisible True
             (CompleteAnimation (CancelAutoHide (s\<lparr>state := kDisabled\<rparr>))))"
    using inv
    by (auto simp: controller_inv_def SetAllUIElementsVisible_def SetUIElementVisible_def
        CompleteAnimation_def CancelAutoHide_def End_def)
  have d: "controller_inv (t\<lparr>histogram := h\<rparr>) = controller_inv t" for t h
    by (simp add: controller_inv_def)
  show ?thesis
    using inv a b c
    by (simp add: SetEnabled_def Let_def d controller_inv_Notify controller_inv_RevealUI
        controller_inv_AnimateHideUI)
qed


lemma controller_inv_OnMouseMoved: "controller_inv s \<Longrightarrow> controller_inv (OnMouseMoved p s)"
proof -
  assume inv: "controller_inv s"
  have a: "controller_inv (s\<lparr>mouse_in_top_edge := b, should_show_ui := b\<rparr>)" for b
    using inv by (simp add: controller_inv_def)
  have b: "controller_inv ((NotifyMouseHoverChanged b (s\<lparr>mouse_in_top_edge := b\<rparr>))\<lparr>should_show_ui := b\<rparr>)" for b
    using inv by (simp add: controller_inv_def)
  have c: "controller_inv (s\<lparr>should_show_ui := mouse_in_top_edge s\<rparr>)"
    using inv by (simp add: controller_inv_def)
  show ?thesis
    using inv a b c
    by (simp add: OnMouseMoved_def Let_def controller_inv_RevealUI controller_inv_HideUIAfterDelay)
qed

lemma controller_inv_OnAddressBarFocused: "controller_inv s \<Longrightarrow> controller_inv (OnAddressBarFocused s)"
proof -
  assume inv: "controller_inv s"
  then have "controller_inv (s\<lparr>address_bar_focused := True\<rparr>)"
    by (simp add: controller_inv_def)
  then show ?thesis
    by (simp add: OnAddressBarFocused_def Let_def controller_inv_RevealUI)
qed

lemma controller_inv_OnAddressBarBlurred: "controller_inv s \<Longrightarrow> controller_inv (OnAddressBarBlurred s)"
proof -
  assume inv: "controller_inv s"
  then have "controller_inv (s\<lparr>address_bar_focused := False\<rparr>)"
    by (simp add: controller_inv_def)
  then show ?thesis
    by (simp add: OnAddressBarBlurred_def Let_def controller_inv_HideUIAfterDelay)
qed

lemma controller_inv_OnAnimationProgressed: "controller_inv s \<Longrightarrow> controller_inv (OnAnimationProgressed v s)"
  by (simp add: controller_inv_def OnAnimationProgressed_def SetUIElementVisible_def Let_def)

lemma controller_inv_AnimationEnded:
  "controller_inv s \<Longrightarrow> controller_inv (OnAnimationCompleted (s\<lparr>animation := End (animation s)\<rparr>))"
  by (simp add: controller_inv_def OnAnimationCompleted_def SetAllUIElementsVisible_def
      SetUIElementVisible_def End_def Let_def)

lemma controller_inv_timer_fired:
  "controller_inv s \<Longrightarrow> controller_inv (OnAutoHideTimer (s\<lparr>auto_hide_timer := False\<rparr>))"
proof -
  assume "controller_inv s"
  then have "controller_inv (s\<lparr>auto_hide_timer := False\<rparr>)"
    by (simp add: controller_inv_def)
  then show ?thesis
    by (simp add: OnAutoHideTimer_def controller_inv_HideUIImmediately)
qed

lemma controller_inv_Trigger:
  "controller_inv s \<Longrightarrow> controller_inv (TriggerAutoHideTimerForTesting s)"
  by (simp add: TriggerAutoHideTimerForTesting_def OnAutoHideTimer_def
      controller_inv_HideUIImmediately)

lemma controller_inv_step: "controller_inv s \<Longrightarrow> controller_inv (step e s)"
proof (cases e)
  case (Call_AddObserver ob)
  assume "controller_inv s"
  then show ?thesis
    by (simp add: Call_AddObserver AddObserver_def controller_inv_def)
next
  case (Call_RemoveObserver ob)
  assume "controller_inv s"
  then show ?thesis
    by (simp add: Call_RemoveObserver RemoveObserver_def controller_inv_def distinct_removeAll)
next
  case (Call_SetAnimationDurationForTesting d)
  assume "controller_inv s"
  then show ?thesis
    by (simp add: Call_SetAnimationDurationForTesting SetAnimationDurationForTesting_def
        controller_inv_def)
next
  case (Call_SetAutoHideDelayForTesting d)
  assume "controller_inv s"
  then show ?thesis
    by (simp add: Call_SetAutoHideDelayForTesting SetAutoHideDelayForTesting_def
        controller_inv_def)
next
  case (Prefs_Changed p)
  assume "controller_inv s"
  then show ?thesis
    by (simp add: Prefs_Changed controller_inv_def)
next
  case (Bounds_Changed r)
  assume "controller_inv s"
  then show ?thesis
    by (simp add: Bounds_Changed controller_inv_def)
next
  case Call_OnActiveTabChanged
  assume "controller_inv s"
  then show ?thesis
    by (simp add: Call_OnActiveTabChanged OnActiveTabChanged_def Let_def
        controller_inv_RevealUI controller_inv_HideUIAfterDelay)
qed (simp_all add: controller_inv_SetEnabled controller_inv_RevealUI
      controller_inv_HideUIAfterDelay controller_inv_HideUIImmediately controller_inv_PinUI
      controller_inv_UnpinUI controller_inv_OnMouseMoved controller_inv_OnAddressBarFocused
      controller_inv_OnAddressBarBlurred controller_inv_OnAnimationProgressed
      controller_inv_AnimationEnded controller_inv_timer_fired controller_inv_Trigger
      OnKeyboardActivity_def OnFullscreenStateChanged_def)

lemma controller_inv_run: "controller_inv s \<Longrightarrow> controller_inv (run s es)"
  by (induction es arbitrary: s) (simp_all add: controller_inv_step)

lemma controller_inv_new: "controller_inv (ImmersiveFullscreenController prefs bounds vs)"
  by (simp add: controller_inv_def ImmersiveFullscreenController_def InitializeFromPrefs_def Let_def)

section \<open>The claims\<close>

subsection \<open>C1: \<open>HideUIImmediately\<close>\<close>

lemma HideUIImmediately_fixed_point:
  "(HideUIImmediately s = s) =
     (state s = kDisabled \<or> state s = kPinned \<or>
      (state s = kEnabled \<and> \<not> auto_hide_timer s \<and> animation_state s = kHidingUI))"
proof (cases "state s = kDisabled \<or> state s = kPinned")
  case True
  then show ?thesis by (auto simp: HideUIImmediately_def)
next
  case False
  show ?thesis
  proof
    assume eq: "HideUIImmediately s = s"
    have "state (HideUIImmediately s) = kEnabled" "\<not> auto_hide_timer (HideUIImmediately s)"
      "animation_state (HideUIImmediately s) = kHidingUI"
      using False by (simp_all add: HideUIImmediately_def Let_def CancelAutoHide_def)
    with eq show "state s = kDisabled \<or> state s = kPinned \<or>
      (state s = kEnabled \<and> \<not> auto_hide_timer s \<and> animation_state s = kHidingUI)"
      by simp
  next
    assume "state s = kDisabled \<or> state s = kPinned \<or>
      (state s = kEnabled \<and> \<not> auto_hide_timer s \<and> animation_state s = kHidingUI)"
    with False have "state s = kEnabled" "\<not> auto_hide_timer s" "animation_state s = kHidingUI"
      by auto
    then show "HideUIImmediately s = s"
      by (simp add: HideUIImmediately_def Let_def CancelAutoHide_def AnimateHideUI_def
          IsUIVisible_def)
  qed
qed

lemma animation_inv_Notify [simp]:
  "animation_inv (NotifyVisibilityChanged b s) = animation_inv s"
  "animation_inv (NotifyModeToggled b s) = animation_inv s"
  "animation_inv (NotifyMouseHoverChanged b s) = animation_inv s"
  by (simp_all add: animation_inv_def)

lemma animation_inv_RevealUI: "animation_inv s \<Longrightarrow> animation_inv (RevealUI s)"
  by (cases "state s")
     (auto simp: animation_inv_def RevealUI_def Let_def IsUIVisible_def CancelAutoHide_def
       AnimateShowUI_def Show_def NotifyVisibilityChanged_def)

lemma animation_inv_HideUIAfterDelay: "animation_inv s \<Longrightarrow> animation_inv (HideUIAfterDelay s)"
  by (auto simp: animation_inv_def HideUIAfterDelay_def ScheduleAutoHide_def)

lemma animation_inv_HideUIImmediately: "animation_inv s \<Longrightarrow> animation_inv (HideUIImmediately s)"
  by (cases "state s")
     (auto simp: animation_inv_def HideUIImmediately_def Let_def IsUIVisible_def CancelAutoHide_def
       AnimateHideUI_def Hide_def NotifyVisibilityChanged_def)

lemma animation_inv_PinUI: "animation_inv s \<Longrightarrow> animation_inv (PinUI s)"
  by (cases "state s")
     (auto simp: animation_inv_def PinUI_def Let_def IsUIVisible_def CancelAutoHide_def
       AnimateShowUI_def Show_def NotifyVisibilityChanged_def)

lemma animation_inv_UnpinUI: "animation_inv s \<Longrightarrow> animation_inv (UnpinUI s)"
  by (auto simp: animation_inv_def UnpinUI_def Let_def HideUIAfterDelay_def ScheduleAutoHide_def)


lemma animation_inv_SetEnabled: "animation_inv s \<Longrightarrow> animation_inv (SetEnabled enabled s)"
proof -
  assume inv: "animation_inv s"
  let ?p = "(pref_service s)\<lparr>kHasSeenIntroduction := True\<rparr>"
  have a: "animation_inv (AnimateHideUI (s\<lparr>state := kEnabled\<rparr>))"
    and b: "animation_inv (AnimateHideUI (s\<lparr>state := kEnabled, pref_service := ?p\<rparr>))"
    using inv by (auto simp: animation_inv_def AnimateHideUI_def Hide_def)
  have c: "animation_inv (RevealUI (s\<lparr>state := kEnabled\<rparr>))"
    and d: "animation_inv (RevealUI (s\<lparr>state := kEnabled, pref_service := ?p\<rparr>))"
    using inv
    by (auto simp: animation_inv_def RevealUI_def Let_def IsUIVisible_def CancelAutoHide_def
        AnimateShowUI_def Show_def NotifyVisibilityChanged_def)
  have e: "animation_inv (SetAllUIElementsVisible True
             (CompleteAnimation (CancelAutoHide (s\<lparr>state := kDisabled\<rparr>))))"
    using inv
    by (auto simp: animation_inv_def SetAllUIElementsVisible_def SetUIElementVisible_def
        CompleteAnimation_def CancelAutoHide_def End_def)
  have f: "animation_inv (t\<lparr>histogram := h\<rparr>) = animation_inv t" for t h
    by (simp add: animation_inv_def)
  show ?thesis
    using inv a b c d e
    by (simp add: SetEnabled_def Let_def f)
qed

lemma animation_inv_OnMouseMoved: "animation_inv s \<Longrightarrow> animation_inv (OnMouseMoved p s)"
proof -
  assume inv: "animation_inv s"
  have a: "animation_inv (s\<lparr>mouse_in_top_edge := b, should_show_ui := c\<rparr>)" for b c
    using inv by (simp add: animation_inv_def)
  have b: "animation_inv ((NotifyMouseHoverChanged b (s\<lparr>mouse_in_top_edge := b\<rparr>))\<lparr>should_show_ui := c\<rparr>)" for b c
    using inv by (simp add: animation_inv_def NotifyMouseHoverChanged_def)
  have c: "animation_inv (s\<lparr>should_show_ui := b\<rparr>)" for b
    using inv by (simp add: animation_inv_def)
  show ?thesis
    using inv a b c
    by (simp add: OnMouseMoved_def Let_def animation_inv_RevealUI animation_inv_HideUIAfterDelay)
qed

lemma animation_inv_OnAddressBarFocused: "animation_inv s \<Longrightarrow> animation_inv (OnAddressBarFocused s)"
proof -
  assume "animation_inv s"
  then have "animation_inv (s\<lparr>address_bar_focused := True\<rparr>)"
    by (simp add: animation_inv_def)
  then show ?thesis
    by (simp add: OnAddressBarFocused_def Let_def animation_inv_RevealUI)
qed

lemma animation_inv_OnAddressBarBlurred: "animation_inv s \<Longrightarrow> animation_inv (OnAddressBarBlurred s)"
proof -
  assume "animation_inv s"
  then have "animation_inv (s\<lparr>address_bar_focused := False\<rparr>)"
    by (simp add: animation_inv_def)
  then show ?thesis
    by (simp add: OnAddressBarBlurred_def Let_def animation_inv_HideUIAfterDelay)
qed

lemma animation_inv_OnAnimationProgressed:
  "animation_inv s \<Longrightarrow> animation_inv (OnAnimationProgressed v s)"
  by (simp add: animation_inv_def OnAnimationProgressed_def SetUIElementVisible_def Let_def)

lemma animation_inv_AnimationEnded:
  "animation_inv s \<Longrightarrow> animation_inv (OnAnimationCompleted (s\<lparr>animation := End (animation s)\<rparr>))"
  by (simp add: animation_inv_def OnAnimationCompleted_def SetAllUIElementsVisible_def
      SetUIElementVisible_def End_def Let_def)

lemma animation_inv_timer_fired:
  "animation_inv s \<Longrightarrow> animation_inv (OnAutoHideTimer (s\<lparr>auto_hide_timer := False\<rparr>))"
proof -
  assume "animation_inv s"
  then have "animation_inv (s\<lparr>auto_hide_timer := False\<rparr>)"
    by (simp add: animation_inv_def)
  then show ?thesis
    by (simp add: OnAutoHideTimer_def animation_inv_HideUIImmediately)
qed

lemma animation_inv_Trigger:
  "animation_inv s \<Longrightarrow> animation_inv (TriggerAutoHideTimerForTesting s)"
  by (simp add: TriggerAutoHideTimerForTesting_def OnAutoHideTimer_def
      animation_inv_HideUIImmediately)

lemma animation_inv_step: "animation_inv s \<Longrightarrow> animation_inv (step e s)"
proof (cases e)
  case (Call_AddObserver ob)
  assume "animation_inv s"
  then show ?thesis
    by (simp add: Call_AddObserver AddObserver_def animation_inv_def)
next
  case (Call_RemoveObserver ob)
  assume "animation_inv s"
  then show ?thesis
    by (simp add: Call_RemoveObserver RemoveObserver_def animation_inv_def)
next
  case (Call_SetAnimationDurationForTesting d)
  assume "animation_inv s"
  then show ?thesis
    by (simp add: Call_SetAnimationDurationForTesting SetAnimationDurationForTesting_def
        animation_inv_def)
next
  case (Call_SetAutoHideDelayForTesting d)
  assume "animation_inv s"
  then show ?thesis
    by (simp add: Call_SetAutoHideDelayForTesting SetAutoHideDelayForTesting_def
        animation_inv_def)
next
  case (Prefs_Changed p)
  assume "animation_inv s"
  then show ?thesis
    by (simp add: Prefs_Changed animation_inv_def)
next
  case (Bounds_Changed r)
  assume "animation_inv s"
  then show ?thesis
    by (simp add: Bounds_Changed animation_inv_def)
next
  case Call_OnActiveTabChanged
  assume "animation_inv s"
  then show ?thesis
    by (simp add: Call_OnActiveTabChanged OnActiveTabChanged_def Let_def
        animation_inv_RevealUI animation_inv_HideUIAfterDelay)
qed (simp_all add: animation_inv_SetEnabled animation_inv_RevealUI
      animation_inv_HideUIAfterDelay animation_inv_HideUIImmediately animation_inv_PinUI
      animation_inv_UnpinUI animation_inv_OnMouseMoved animation_inv_OnAddressBarFocused
      animation_inv_OnAddressBarBlurred animation_inv_OnAnimationProgressed
      animation_inv_AnimationEnded animation_inv_timer_fired animation_inv_Trigger
      OnKeyboardActivity_def OnFullscreenStateChanged_def)

lemma animation_inv_run: "animation_inv s \<Longrightarrow> animation_inv (run s es)"
  by (induction es arbitrary: s) (simp_all add: animation_inv_step)

lemma animation_inv_new: "animation_inv (ImmersiveFullscreenController prefs bounds vs)"
  by (simp add: animation_inv_def ImmersiveFullscreenController_def InitializeFromPrefs_def Let_def)

lemma HideUIImmediately_from_revealed:
  assumes "animation_inv s" and "state s = kRevealed"
  shows "HideUIImmediately s =
           s\<lparr>auto_hide_timer := False, state := kEnabled, animation_state := kHidingUI,
             animation := Hide (animation s),
             delivered := delivered s @
               broadcast (observers s) (OnImmersiveUIVisibilityChanged False)\<rparr>"
  using assms
  by (cases s)
     (auto simp: animation_inv_def HideUIImmediately_def Let_def CancelAutoHide_def
       IsUIVisible_def AnimateHideUI_def NotifyVisibilityChanged_def)

lemma HideUIImmediately_from_enabled:
  assumes "animation_inv s" and "state s = kEnabled"
  shows "HideUIImmediately s = s\<lparr>auto_hide_timer := False, animation_state := kHidingUI\<rparr>"
  using assms
  by (cases s)
     (auto simp: animation_inv_def HideUIImmediately_def Let_def CancelAutoHide_def
       IsUIVisible_def AnimateHideUI_def)


text \<open>
  Claim C1, as the code has it, for the states after a run from a new controller. In the
  modes \<open>kDisabled\<close> and \<open>kPinned\<close> \<open>HideUIImmediately\<close> returns at once and nothing changes. In the
  mode \<open>kRevealed\<close>, with the address bar not focused, it stops the timer, sends the animation
  in the hide direction with \<open>Hide()\<close>, sets the animation state \<open>kHidingUI\<close> and the mode
  \<open>kEnabled\<close>, calls \<open>OnImmersiveUIVisibilityChanged(false)\<close> on every observer, and changes
  nothing else. In the mode \<open>kEnabled\<close>, with the address bar not focused, it stops the timer
  and sets the animation state \<open>kHidingUI\<close>; the animation already points in the hide direction
  and no observer is called. With the address bar not focused, the call changes nothing
  exactly in the modes \<open>kDisabled\<close> and \<open>kPinned\<close> and in the states that are hidden already:
  mode \<open>kEnabled\<close>, no timer running, animation state \<open>kHidingUI\<close>. Nothing is said here about
  the call while the address bar is focused.
\<close>

theorem HideUIImmediately_effect:
  assumes "s = run (ImmersiveFullscreenController prefs bounds vs) evs"
  shows
  "(state s = kDisabled \<or> state s = kPinned \<longrightarrow> HideUIImmediately s = s) \<and>
   (state s = kRevealed \<and> \<not> address_bar_focused s \<longrightarrow>
      HideUIImmediately s =
        s\<lparr>auto_hide_timer := False, state := kEnabled, animation_state := kHidingUI,
          animation := Hide (animation s),
          delivered := delivered s @
            broadcast (observers s) (OnImmersiveUIVisibilityChanged False)\<rparr> \<and>
      \<not> IsUIVisible (HideUIImmediately s)) \<and>
   (state s = kEnabled \<and> \<not> address_bar_focused s \<longrightarrow>
      HideUIImmediately s = s\<lparr>auto_hide_timer := False, animation_state := kHidingUI\<rparr> \<and>
      \<not> IsUIVisible (HideUIImmediately s)) \<and>
   (\<not> address_bar_focused s \<longrightarrow>
      (HideUIImmediately s = s) =
        (state s = kDisabled \<or> state s = kPinned \<or>
         (state s = kEnabled \<and> \<not> auto_hide_timer s \<and> animation_state s = kHidingUI)))"
proof -
  have inv: "animation_inv s"
    unfolding assms by (rule animation_inv_run) (rule animation_inv_new)
  have noop: "HideUIImmediately s = s" if "state s = kDisabled \<or> state s = kPinned"
    using that by (auto simp: HideUIImmediately_def)
  have hidden: "\<not> IsUIVisible (HideUIImmediately s)"
    if "state s = kRevealed \<or> state s = kEnabled"
    using that by (auto simp: HideUIImmediately_def Let_def CancelAutoHide_def IsUIVisible_def)
  show ?thesis
    using noop hidden HideUIImmediately_from_revealed [OF inv]
      HideUIImmediately_from_enabled [OF inv] HideUIImmediately_fixed_point [of s]
    by blast
qed


text \<open>
  The theorem on three runs of the fixture with one observer: pinned (nothing changes);
  revealed by the pointer, which has left again, so that the timer runs; and enabled with the
  timer running.
\<close>

theorem HideUIImmediately_effect_witness:
  "state (run (ImmersiveFullscreenController test_prefs test_bounds [kToolbar, kTabStrip, kBookmarksBar])
      [Call_AddObserver 1, Call_SetEnabled True, Call_PinUI]) = kPinned \<and>
   HideUIImmediately (run (ImmersiveFullscreenController test_prefs test_bounds [kToolbar, kTabStrip, kBookmarksBar])
      [Call_AddObserver 1, Call_SetEnabled True, Call_PinUI]) =
     run (ImmersiveFullscreenController test_prefs test_bounds [kToolbar, kTabStrip, kBookmarksBar])
      [Call_AddObserver 1, Call_SetEnabled True, Call_PinUI] \<and>
   state (run (ImmersiveFullscreenController test_prefs test_bounds [kToolbar, kTabStrip, kBookmarksBar])
      [Call_AddObserver 1, Call_SetEnabled True, Call_OnMouseMoved \<lparr>pt_x = 600, pt_y = 2\<rparr>,
       Call_OnMouseMoved \<lparr>pt_x = 600, pt_y = 100\<rparr>]) = kRevealed \<and>
   \<not> address_bar_focused (run (ImmersiveFullscreenController test_prefs test_bounds [kToolbar, kTabStrip, kBookmarksBar])
      [Call_AddObserver 1, Call_SetEnabled True, Call_OnMouseMoved \<lparr>pt_x = 600, pt_y = 2\<rparr>,
       Call_OnMouseMoved \<lparr>pt_x = 600, pt_y = 100\<rparr>]) \<and>
   auto_hide_timer (run (ImmersiveFullscreenController test_prefs test_bounds [kToolbar, kTabStrip, kBookmarksBar])
      [Call_AddObserver 1, Call_SetEnabled True, Call_OnMouseMoved \<lparr>pt_x = 600, pt_y = 2\<rparr>,
       Call_OnMouseMoved \<lparr>pt_x = 600, pt_y = 100\<rparr>]) \<and>
   IsShowing (animation (run (ImmersiveFullscreenController test_prefs test_bounds [kToolbar, kTabStrip, kBookmarksBar])
      [Call_AddObserver 1, Call_SetEnabled True, Call_OnMouseMoved \<lparr>pt_x = 600, pt_y = 2\<rparr>,
       Call_OnMouseMoved \<lparr>pt_x = 600, pt_y = 100\<rparr>])) \<and>
   state (HideUIImmediately (run (ImmersiveFullscreenController test_prefs test_bounds [kToolbar, kTabStrip, kBookmarksBar])
      [Call_AddObserver 1, Call_SetEnabled True, Call_OnMouseMoved \<lparr>pt_x = 600, pt_y = 2\<rparr>,
       Call_OnMouseMoved \<lparr>pt_x = 600, pt_y = 100\<rparr>])) = kEnabled \<and>
   \<not> auto_hide_timer (HideUIImmediately (run (ImmersiveFullscreenController test_prefs test_bounds [kToolbar, kTabStrip, kBookmarksBar])
      [Call_AddObserver 1, Call_SetEnabled True, Call_OnMouseMoved \<lparr>pt_x = 600, pt_y = 2\<rparr>,
       Call_OnMouseMoved \<lparr>pt_x = 600, pt_y = 100\<rparr>])) \<and>
   animation_state (HideUIImmediately (run (ImmersiveFullscreenController test_prefs test_bounds [kToolbar, kTabStrip, kBookmarksBar])
      [Call_AddObserver 1, Call_SetEnabled True, Call_OnMouseMoved \<lparr>pt_x = 600, pt_y = 2\<rparr>,
       Call_OnMouseMoved \<lparr>pt_x = 600, pt_y = 100\<rparr>])) = kHidingUI \<and>
   \<not> IsShowing (animation (HideUIImmediately (run (ImmersiveFullscreenController test_prefs test_bounds [kToolbar, kTabStrip, kBookmarksBar])
      [Call_AddObserver 1, Call_SetEnabled True, Call_OnMouseMoved \<lparr>pt_x = 600, pt_y = 2\<rparr>,
       Call_OnMouseMoved \<lparr>pt_x = 600, pt_y = 100\<rparr>]))) \<and>
   is_animating (animation (HideUIImmediately (run (ImmersiveFullscreenController test_prefs test_bounds [kToolbar, kTabStrip, kBookmarksBar])
      [Call_AddObserver 1, Call_SetEnabled True, Call_OnMouseMoved \<lparr>pt_x = 600, pt_y = 2\<rparr>,
       Call_OnMouseMoved \<lparr>pt_x = 600, pt_y = 100\<rparr>]))) \<and>
   delivered (HideUIImmediately (run (ImmersiveFullscreenController test_prefs test_bounds [kToolbar, kTabStrip, kBookmarksBar])
      [Call_AddObserver 1, Call_SetEnabled True, Call_OnMouseMoved \<lparr>pt_x = 600, pt_y = 2\<rparr>,
       Call_OnMouseMoved \<lparr>pt_x = 600, pt_y = 100\<rparr>])) =
     [(1, OnImmersiveModeToggled True), (1, OnMouseHoverStateChanged True),
      (1, OnImmersiveUIVisibilityChanged True), (1, OnMouseHoverStateChanged False),
      (1, OnImmersiveUIVisibilityChanged False)] \<and>
   state (run (ImmersiveFullscreenController test_prefs test_bounds [kToolbar, kTabStrip, kBookmarksBar])
      [Call_AddObserver 1, Call_SetEnabled True, Call_HideUIAfterDelay]) = kEnabled \<and>
   \<not> address_bar_focused (run (ImmersiveFullscreenController test_prefs test_bounds [kToolbar, kTabStrip, kBookmarksBar])
      [Call_AddObserver 1, Call_SetEnabled True, Call_HideUIAfterDelay]) \<and>
   auto_hide_timer (run (ImmersiveFullscreenController test_prefs test_bounds [kToolbar, kTabStrip, kBookmarksBar])
      [Call_AddObserver 1, Call_SetEnabled True, Call_HideUIAfterDelay]) \<and>
   \<not> auto_hide_timer (HideUIImmediately (run (ImmersiveFullscreenController test_prefs test_bounds [kToolbar, kTabStrip, kBookmarksBar])
      [Call_AddObserver 1, Call_SetEnabled True, Call_HideUIAfterDelay])) \<and>
   delivered (HideUIImmediately (run (ImmersiveFullscreenController test_prefs test_bounds [kToolbar, kTabStrip, kBookmarksBar])
      [Call_AddObserver 1, Call_SetEnabled True, Call_HideUIAfterDelay])) =
     [(1, OnImmersiveModeToggled True)]"
  using HideUIImmediately_effect [OF refl, where prefs = test_prefs and bounds = test_bounds
      and vs = "[kToolbar, kTabStrip, kBookmarksBar]"
      and evs = "[Call_AddObserver 1, Call_SetEnabled True, Call_PinUI]"]
    HideUIImmediately_effect [OF refl, where prefs = test_prefs and bounds = test_bounds
      and vs = "[kToolbar, kTabStrip, kBookmarksBar]"
      and evs = "[Call_AddObserver 1, Call_SetEnabled True,
                  Call_OnMouseMoved \<lparr>pt_x = 600, pt_y = 2\<rparr>,
                  Call_OnMouseMoved \<lparr>pt_x = 600, pt_y = 100\<rparr>]"]
    HideUIImmediately_effect [OF refl, where prefs = test_prefs and bounds = test_bounds
      and vs = "[kToolbar, kTabStrip, kBookmarksBar]"
      and evs = "[Call_AddObserver 1, Call_SetEnabled True, Call_HideUIAfterDelay]"]
  by (simp add: controller_defs test_defs Let_def)

text \<open>Right after \<open>SetEnabled(true)\<close> on the fixture the mode is \<open>kEnabled\<close>, and
  \<open>HideUIImmediately\<close> changes nothing: a third kind of state in which the call has no effect.\<close>

theorem HideUIImmediately_already_hidden:
  "state (SetEnabled True test_controller) = kEnabled \<and>
   HideUIImmediately (SetEnabled True test_controller) = SetEnabled True test_controller"
  by (simp add: controller_defs test_defs Let_def)

subsection \<open>C2: the far edge of the hover zone\<close>

text \<open>The controller's \<open>IsMouseInTopEdge\<close> has the boundary of the claim: inside the window's
  horizontal extent, and with the top of the window plus the sensitivity in the range of a
  32-bit \<open>int\<close>, the row at that sum is outside the zone and the row above it is inside. The
  test \<open>MouseAtExactBoundary\<close> holds of the model.\<close>

lemma wrap_int32_in_range:
  "- 2147483648 \<le> n \<Longrightarrow> n < 2147483648 \<Longrightarrow> wrap_int32 n = n"
  by (simp add: wrap_int32_def)

lemma IsMouseInTopEdge_far_edge:
  assumes "rect_x (browser_bounds s) \<le> x" and "x < right (browser_bounds s)"
    and "0 < top_edge_sensitivity_px s"
    and "- 2147483648 \<le> rect_y (browser_bounds s) + top_edge_sensitivity_px s"
    and "rect_y (browser_bounds s) + top_edge_sensitivity_px s < 2147483648"
  shows "\<not> IsMouseInTopEdge s \<lparr>pt_x = x, pt_y = rect_y (browser_bounds s) + top_edge_sensitivity_px s\<rparr>"
    and "IsMouseInTopEdge s \<lparr>pt_x = x, pt_y = rect_y (browser_bounds s) + top_edge_sensitivity_px s - 1\<rparr>"
  using assms by (simp_all add: IsMouseInTopEdge_def Let_def wrap_int32_in_range)

lemma MouseAtExactBoundary:
  "\<not> IsUIVisible (run test_controller [Call_SetEnabled True, Call_OnMouseMoved \<lparr>pt_x = 600, pt_y = 5\<rparr>])"
  "IsUIVisible (run test_controller [Call_SetEnabled True, Call_OnMouseMoved \<lparr>pt_x = 600, pt_y = 5\<rparr>,
     Call_OnMouseMoved \<lparr>pt_x = 600, pt_y = 4\<rparr>])"
  by (simp_all add: controller_defs test_defs Let_def)

text \<open>
  Claim C2 against the page-side handler. \<open>isMouseInTopEdge\<close> compares with \<open>\<le>\<close>, so with the
  sensitivity 5 a pointer at \<open>y = 5\<close> counts as inside the zone, and \<open>handleMouseMove\<close> reveals
  the hidden interface there. The claim, the controller and its test put \<open>y = 5\<close> outside.
\<close>

theorem isMouseInTopEdge_at_sensitivity:
  "topEdgeSensitivity hidden_handler = 5 \<and>
   isMouseInTopEdge hidden_handler 5 \<and>
   \<not> isUIVisible hidden_handler \<and>
   isUIVisible (handleMouseMove (600, 5) (600, 5) hidden_handler)"
  by (simp add: handler_defs hidden_handler_value Let_def)

subsection \<open>C3: keyboard activity\<close>

lemma OnKeyboardActivity_with_flag:
  "show_on_keyboard_activity c \<Longrightarrow> state c \<noteq> kDisabled \<Longrightarrow>
     OnKeyboardActivity c = RevealUI c \<and> IsUIVisible (OnKeyboardActivity c)"
  by (cases "state c")
     (simp_all add: OnKeyboardActivity_def RevealUI_def Let_def IsUIVisible_def CancelAutoHide_def)

lemma handleKeyDown_shortcut:
  assumes "isEnabled h"
    and "ctrlKey ev \<or> metaKey ev \<or> altKey ev \<or> key ev \<in> {''F11'', ''Escape'', ''Tab''}"
  shows "isUIVisible (handleKeyDown ev h)"
  using assms
  by (auto simp: handleKeyDown_def revealUI_def notify_binding_def dispatchUIVisibilityEvent_def
      cancelAutoHide_def Let_def split: option.splits)

lemma handleKeyDown_other_key:
  assumes "isEnabled h"
    and "\<not> (ctrlKey ev \<or> metaKey ev \<or> altKey ev \<or> key ev \<in> {''F11'', ''Escape'', ''Tab''})"
  shows "isUIVisible (handleKeyDown ev h) = isUIVisible h \<and>
         dispatched (handleKeyDown ev h) = dispatched h \<and>
         autoHideTimer (handleKeyDown ev h) = autoHideTimer h \<and>
         timeouts (handleKeyDown ev h) = timeouts h"
  using assms
  by (auto simp: handleKeyDown_def notify_binding_def Let_def)

text \<open>
  Claim C3, as the code has it. In the controller, \<open>OnKeyboardActivity\<close> on an enabled state is
  \<open>RevealUI\<close> when \<open>show_on_keyboard_activity\<close> is set, and the interface is visible afterwards;
  when the flag is not set it changes nothing. The page-side \<open>handleKeyDown\<close> has no flag: on
  an enabled handler a key pressed with Ctrl, Meta or Alt, and the keys F11, Escape and Tab,
  leave the interface visible; any other key leaves the visibility, the dispatched events
  and the timer as they were.
\<close>

theorem key_activity_reveals:
  "(show_on_keyboard_activity c \<and> state c \<noteq> kDisabled \<longrightarrow>
      OnKeyboardActivity c = RevealUI c \<and> IsUIVisible (OnKeyboardActivity c)) \<and>
   (\<not> show_on_keyboard_activity c \<longrightarrow> OnKeyboardActivity c = c) \<and>
   (isEnabled h \<and>
    (ctrlKey ev \<or> metaKey ev \<or> altKey ev \<or> key ev \<in> {''F11'', ''Escape'', ''Tab''}) \<longrightarrow>
      isUIVisible (handleKeyDown ev h)) \<and>
   (isEnabled h \<and>
    \<not> (ctrlKey ev \<or> metaKey ev \<or> altKey ev \<or> key ev \<in> {''F11'', ''Escape'', ''Tab''}) \<longrightarrow>
      isUIVisible (handleKeyDown ev h) = isUIVisible h \<and>
      dispatched (handleKeyDown ev h) = dispatched h \<and>
      autoHideTimer (handleKeyDown ev h) = autoHideTimer h \<and>
      timeouts (handleKeyDown ev h) = timeouts h)"
proof (intro conjI)
  show "show_on_keyboard_activity c \<and> state c \<noteq> kDisabled \<longrightarrow>
      OnKeyboardActivity c = RevealUI c \<and> IsUIVisible (OnKeyboardActivity c)"
    using OnKeyboardActivity_with_flag [of c] by blast
  show "\<not> show_on_keyboard_activity c \<longrightarrow> OnKeyboardActivity c = c"
    by (simp add: OnKeyboardActivity_def)
  show "isEnabled h \<and>
    (ctrlKey ev \<or> metaKey ev \<or> altKey ev \<or> key ev \<in> {''F11'', ''Escape'', ''Tab''}) \<longrightarrow>
      isUIVisible (handleKeyDown ev h)"
    using handleKeyDown_shortcut [of h ev] by blast
  show "isEnabled h \<and>
    \<not> (ctrlKey ev \<or> metaKey ev \<or> altKey ev \<or> key ev \<in> {''F11'', ''Escape'', ''Tab''}) \<longrightarrow>
      isUIVisible (handleKeyDown ev h) = isUIVisible h \<and>
      dispatched (handleKeyDown ev h) = dispatched h \<and>
      autoHideTimer (handleKeyDown ev h) = autoHideTimer h \<and>
      timeouts (handleKeyDown ev h) = timeouts h"
    using handleKeyDown_other_key [of h ev] by blast
qed

text \<open>
  The theorem at the fixture with and without the flag, and at the hidden handler with the
  Tab key and with a plain letter.
\<close>

theorem key_activity_reveals_witness:
  "show_on_keyboard_activity
     (SetEnabled True (ImmersiveFullscreenController (test_prefs\<lparr>kShowOnKeyboardActivity := True\<rparr>)
        test_bounds [kToolbar, kTabStrip, kBookmarksBar])) \<and>
   IsUIVisible (OnKeyboardActivity
     (SetEnabled True (ImmersiveFullscreenController (test_prefs\<lparr>kShowOnKeyboardActivity := True\<rparr>)
        test_bounds [kToolbar, kTabStrip, kBookmarksBar]))) \<and>
   \<not> show_on_keyboard_activity (SetEnabled True test_controller) \<and>
   OnKeyboardActivity (SetEnabled True test_controller) = SetEnabled True test_controller \<and>
   isEnabled hidden_handler \<and> \<not> isUIVisible hidden_handler \<and>
   isUIVisible (handleKeyDown
     \<lparr>key = ''Tab'', ctrlKey = False, metaKey = False, altKey = False, shiftKey = False\<rparr>
     hidden_handler) \<and>
   \<not> isUIVisible (handleKeyDown
     \<lparr>key = ''a'', ctrlKey = False, metaKey = False, altKey = False, shiftKey = True\<rparr>
     hidden_handler)"
  using key_activity_reveals [of
      "SetEnabled True (ImmersiveFullscreenController (test_prefs\<lparr>kShowOnKeyboardActivity := True\<rparr>)
        test_bounds [kToolbar, kTabStrip, kBookmarksBar])"
      hidden_handler
      "\<lparr>key = ''Tab'', ctrlKey = False, metaKey = False, altKey = False, shiftKey = False\<rparr>"]
    key_activity_reveals [of "SetEnabled True test_controller" hidden_handler
      "\<lparr>key = ''a'', ctrlKey = False, metaKey = False, altKey = False, shiftKey = True\<rparr>"]
  by (simp add: controller_defs test_defs handler_defs hidden_handler_value Let_def)

text \<open>
  With the flag not set in the controller, a key-down of the Control key reveals the
  interface of the hidden handler.
\<close>

theorem control_key_reveals_without_flag:
  "\<not> show_on_keyboard_activity (SetEnabled True test_controller) \<and>
   isEnabled hidden_handler \<and> \<not> isUIVisible hidden_handler \<and>
   isUIVisible (handleKeyDown
     \<lparr>key = ''Control'', ctrlKey = True, metaKey = False, altKey = False, shiftKey = False\<rparr>
     hidden_handler)"
  by (simp add: controller_defs test_defs handler_defs hidden_handler_value Let_def)

subsection \<open>C4: the legacy preference\<close>

text \<open>
  Claim C4. When \<open>kRespectLegacyFullscreenPref\<close> and the legacy preference
  \<open>kShowFullscreenToolbar\<close> are both set, \<open>SetEnabled(true)\<close> returns the controller unchanged: a
  disabled controller stays disabled and no observer is called.
\<close>

theorem SetEnabled_legacy_suppressed:
  assumes "kRespectLegacyFullscreenPref (pref_service s)"
    and "kShowFullscreenToolbar (pref_service s)"
  shows "SetEnabled True s = s \<and>
         (state s = kDisabled \<longrightarrow> state (SetEnabled True s) = kDisabled) \<and>
         delivered (SetEnabled True s) = delivered s"
proof -
  have "SetEnabled True s = s"
    using assms by (simp add: SetEnabled_def ShouldDisableImmersiveMode_def)
  then show ?thesis by simp
qed

text \<open>
  The fixture with the legacy preference set, as in the test
  \<open>RespectLegacyFullscreenPreference\<close>, and one observer.
\<close>

theorem SetEnabled_legacy_suppressed_witness:
  "kRespectLegacyFullscreenPref
     (pref_service (step (Prefs_Changed (test_prefs\<lparr>kShowFullscreenToolbar := True\<rparr>))
        (AddObserver 1 test_controller))) \<and>
   kShowFullscreenToolbar
     (pref_service (step (Prefs_Changed (test_prefs\<lparr>kShowFullscreenToolbar := True\<rparr>))
        (AddObserver 1 test_controller))) \<and>
   state (SetEnabled True (step (Prefs_Changed (test_prefs\<lparr>kShowFullscreenToolbar := True\<rparr>))
        (AddObserver 1 test_controller))) = kDisabled \<and>
   delivered (SetEnabled True (step (Prefs_Changed (test_prefs\<lparr>kShowFullscreenToolbar := True\<rparr>))
        (AddObserver 1 test_controller))) = []"
  using SetEnabled_legacy_suppressed
    [of "step (Prefs_Changed (test_prefs\<lparr>kShowFullscreenToolbar := True\<rparr>))
           (AddObserver 1 test_controller)"]
  by (simp add: controller_defs test_defs Let_def)

subsection \<open>C5: a pinned controller has no timer\<close>

lemma pinned_step_no_timer:
  assumes "state s = kPinned" and "\<not> auto_hide_timer s" and "e \<noteq> Call_UnpinUI"
  shows "\<not> auto_hide_timer (step e s)"
  using assms
  by (cases e)
     (simp_all add: SetEnabled_def RevealUI_def HideUIAfterDelay_def HideUIImmediately_def
       PinUI_def OnMouseMoved_def OnAddressBarFocused_def OnAddressBarBlurred_def
       OnKeyboardActivity_def OnFullscreenStateChanged_def OnActiveTabChanged_def
       OnAutoHideTimer_def TriggerAutoHideTimerForTesting_def SetAnimationDurationForTesting_def
       SetAutoHideDelayForTesting_def AddObserver_def RemoveObserver_def
       OnAnimationProgressed_def OnAnimationCompleted_def IsEnabled_def IsUIVisible_def
       CancelAutoHide_def CompleteAnimation_def SetAllUIElementsVisible_def
       SetUIElementVisible_def Let_def)

lemma PinUI_no_timer: "controller_inv s \<Longrightarrow> \<not> auto_hide_timer (PinUI s)"
  by (simp add: PinUI_def Let_def controller_inv_def CancelAutoHide_def)

text \<open>
  Claim C5. After every run from a new controller: if the mode is \<open>kPinned\<close> the timer is
  not running; \<open>PinUI\<close> leaves no timer running; and from a pinned state no event other than
  the call of \<open>UnpinUI\<close> leaves a timer running.
\<close>

theorem pinned_has_no_timer:
  assumes "s = run (ImmersiveFullscreenController prefs bounds vs) evs"
  shows "(state s = kPinned \<longrightarrow> \<not> auto_hide_timer s) \<and>
         \<not> auto_hide_timer (PinUI s) \<and>
         (state s = kPinned \<and> e \<noteq> Call_UnpinUI \<longrightarrow> \<not> auto_hide_timer (step e s))"
proof -
  have inv: "controller_inv s"
    unfolding assms by (rule controller_inv_run) (rule controller_inv_new)
  then have pinned: "state s = kPinned \<longrightarrow> \<not> auto_hide_timer s"
    by (simp add: controller_inv_def)
  moreover have "\<not> auto_hide_timer (PinUI s)"
    using inv by (rule PinUI_no_timer)
  moreover have "state s = kPinned \<and> e \<noteq> Call_UnpinUI \<longrightarrow> \<not> auto_hide_timer (step e s)"
    using pinned pinned_step_no_timer [of s e] by blast
  ultimately show ?thesis by blast
qed

text \<open>
  A run of the fixture in which the timer is running when \<open>PinUI\<close> is called.
\<close>

theorem pinned_has_no_timer_witness:
  "auto_hide_timer (run (ImmersiveFullscreenController test_prefs test_bounds [kToolbar, kTabStrip, kBookmarksBar])
      [Call_SetEnabled True, Call_OnMouseMoved \<lparr>pt_x = 600, pt_y = 2\<rparr>,
       Call_OnMouseMoved \<lparr>pt_x = 600, pt_y = 100\<rparr>]) \<and>
   state (run (ImmersiveFullscreenController test_prefs test_bounds [kToolbar, kTabStrip, kBookmarksBar])
      [Call_SetEnabled True, Call_OnMouseMoved \<lparr>pt_x = 600, pt_y = 2\<rparr>,
       Call_OnMouseMoved \<lparr>pt_x = 600, pt_y = 100\<rparr>, Call_PinUI]) = kPinned \<and>
   \<not> auto_hide_timer (run (ImmersiveFullscreenController test_prefs test_bounds [kToolbar, kTabStrip, kBookmarksBar])
      [Call_SetEnabled True, Call_OnMouseMoved \<lparr>pt_x = 600, pt_y = 2\<rparr>,
       Call_OnMouseMoved \<lparr>pt_x = 600, pt_y = 100\<rparr>, Call_PinUI]) \<and>
   \<not> auto_hide_timer (step Call_HideUIAfterDelay
      (run (ImmersiveFullscreenController test_prefs test_bounds [kToolbar, kTabStrip, kBookmarksBar])
      [Call_SetEnabled True, Call_OnMouseMoved \<lparr>pt_x = 600, pt_y = 2\<rparr>,
       Call_OnMouseMoved \<lparr>pt_x = 600, pt_y = 100\<rparr>, Call_PinUI]))"
  using pinned_has_no_timer [OF refl, where prefs = test_prefs and bounds = test_bounds
      and vs = "[kToolbar, kTabStrip, kBookmarksBar]"
      and evs = "[Call_SetEnabled True, Call_OnMouseMoved \<lparr>pt_x = 600, pt_y = 2\<rparr>,
                  Call_OnMouseMoved \<lparr>pt_x = 600, pt_y = 100\<rparr>, Call_PinUI]"
      and e = Call_HideUIAfterDelay]
  by (simp add: controller_defs test_defs Let_def)

subsection \<open>C6: the disabled mode\<close>

lemma primitives_quiet [simp]:
  "views (AnimateShowUI s) = views s" "set_visible_calls (AnimateShowUI s) = set_visible_calls s"
  "views (AnimateHideUI s) = views s" "set_visible_calls (AnimateHideUI s) = set_visible_calls s"
  "views (NotifyVisibilityChanged b s) = views s"
  "set_visible_calls (NotifyVisibilityChanged b s) = set_visible_calls s"
  "views (NotifyModeToggled b s) = views s"
  "set_visible_calls (NotifyModeToggled b s) = set_visible_calls s"
  "views (NotifyMouseHoverChanged b s) = views s"
  "set_visible_calls (NotifyMouseHoverChanged b s) = set_visible_calls s"
  by (simp_all add: AnimateShowUI_def AnimateHideUI_def NotifyVisibilityChanged_def
      NotifyModeToggled_def NotifyMouseHoverChanged_def)

lemma RevealUI_quiet [simp]:
  "views (RevealUI s) = views s" "set_visible_calls (RevealUI s) = set_visible_calls s"
  "(state (RevealUI s) = kDisabled) = (state s = kDisabled)"
  by (simp_all add: RevealUI_def Let_def CancelAutoHide_def)

lemma HideUIAfterDelay_quiet [simp]:
  "views (HideUIAfterDelay s) = views s"
  "set_visible_calls (HideUIAfterDelay s) = set_visible_calls s"
  "state (HideUIAfterDelay s) = state s"
  by (simp_all add: HideUIAfterDelay_def ScheduleAutoHide_def)

lemma HideUIImmediately_quiet [simp]:
  "views (HideUIImmediately s) = views s"
  "set_visible_calls (HideUIImmediately s) = set_visible_calls s"
  "(state (HideUIImmediately s) = kDisabled) = (state s = kDisabled)"
  by (simp_all add: HideUIImmediately_def Let_def CancelAutoHide_def)

lemma PinUI_quiet [simp]:
  "views (PinUI s) = views s" "set_visible_calls (PinUI s) = set_visible_calls s"
  "(state (PinUI s) = kDisabled) = (state s = kDisabled)"
  by (simp_all add: PinUI_def Let_def CancelAutoHide_def)

lemma UnpinUI_quiet [simp]:
  "views (UnpinUI s) = views s" "set_visible_calls (UnpinUI s) = set_visible_calls s"
  "(state (UnpinUI s) = kDisabled) = (state s = kDisabled)"
  by (auto simp: UnpinUI_def Let_def)

lemma OnMouseMoved_quiet [simp]:
  "views (OnMouseMoved p s) = views s"
  "set_visible_calls (OnMouseMoved p s) = set_visible_calls s"
  "(state (OnMouseMoved p s) = kDisabled) = (state s = kDisabled)"
  by (simp_all add: OnMouseMoved_def Let_def)

lemma OnAddressBarFocused_quiet [simp]:
  "views (OnAddressBarFocused s) = views s"
  "set_visible_calls (OnAddressBarFocused s) = set_visible_calls s"
  "(state (OnAddressBarFocused s) = kDisabled) = (state s = kDisabled)"
  by (simp_all add: OnAddressBarFocused_def Let_def)

lemma OnAddressBarBlurred_quiet [simp]:
  "views (OnAddressBarBlurred s) = views s"
  "set_visible_calls (OnAddressBarBlurred s) = set_visible_calls s"
  "(state (OnAddressBarBlurred s) = kDisabled) = (state s = kDisabled)"
  by (simp_all add: OnAddressBarBlurred_def Let_def)

lemma OnActiveTabChanged_quiet [simp]:
  "views (OnActiveTabChanged s) = views s"
  "set_visible_calls (OnActiveTabChanged s) = set_visible_calls s"
  "(state (OnActiveTabChanged s) = kDisabled) = (state s = kDisabled)"
  by (simp_all add: OnActiveTabChanged_def Let_def)

lemma SetEnabled_True_quiet [simp]:
  "views (SetEnabled True s) = views s"
  "set_visible_calls (SetEnabled True s) = set_visible_calls s"
  by (simp_all add: SetEnabled_def Let_def IsEnabled_def)

lemma SetEnabled_True_disabled:
  "state (SetEnabled True s) = kDisabled \<Longrightarrow> state s = kDisabled"
  by (simp add: SetEnabled_def Let_def IsEnabled_def split: if_splits)

lemma SetAllUIElementsVisible_calls:
  "set_visible_calls (SetAllUIElementsVisible b s) =
     set_visible_calls s @
       filter (\<lambda>c. fst c \<in> set (views s)) [(kToolbar, b), (kTabStrip, b), (kBookmarksBar, b)]"
  "views (SetAllUIElementsVisible b s) = views s"
  "state (SetAllUIElementsVisible b s) = state s"
  by (simp_all add: SetAllUIElementsVisible_def SetUIElementVisible_def)

lemma surfaces_inv_SetEnabled_False:
  assumes "surfaces_inv s"
  shows "surfaces_inv (SetEnabled False s)"
proof (cases "state s = kDisabled")
  case True
  then show ?thesis using assms by (simp add: SetEnabled_def IsEnabled_def)
next
  case False
  define new where "new = filter (\<lambda>c. fst c \<in> set (views s))
      [(kToolbar, True), (kTabStrip, True), (kBookmarksBar, True)]"
  have calls: "set_visible_calls (SetEnabled False s) = set_visible_calls s @ new"
    and vs: "views (SetEnabled False s) = views s"
    using False
    by (simp_all add: new_def SetEnabled_def IsEnabled_def Let_def SetAllUIElementsVisible_calls
        NotifyModeToggled_def CompleteAnimation_def CancelAutoHide_def)
  have old: "\<forall>c \<in> set (set_visible_calls s).
      fst c \<in> set (views s) \<and> fst c \<in> {kToolbar, kTabStrip, kBookmarksBar}"
    using assms by (simp add: surfaces_inv_def)
  have new_keys: "fst ` set new = {kToolbar, kTabStrip, kBookmarksBar} \<inter> set (views s)"
    by (auto simp: new_def)
  have new_vals: "v" if "(e, v) \<in> set new" for e v
    using that by (auto simp: new_def split: if_splits)
  have split: "last_command (set_visible_calls s @ new) e =
      (case map_of (rev new) e of Some v \<Rightarrow> Some v | None \<Rightarrow> map_of (rev (set_visible_calls s)) e)"
    for e
    by (simp add: last_command_def map_add_def)
  have "last_command (set_visible_calls s @ new) e \<noteq> Some False" for e
  proof (cases "map_of (rev new) e")
    case None
    then have "e \<notin> fst ` set new"
      by (simp add: map_of_eq_None_iff)
    with new_keys old have "e \<notin> fst ` set (set_visible_calls s)"
      by force
    then have "map_of (rev (set_visible_calls s)) e = None"
      by (simp add: map_of_eq_None_iff)
    with None show ?thesis by (simp add: split)
  next
    case (Some v)
    then have "(e, v) \<in> set new"
      using map_of_SomeD [of "rev new" e v] by simp
    then have v by (rule new_vals)
    with Some show ?thesis by (simp add: split)
  qed
  moreover have "\<forall>c \<in> set (set_visible_calls s @ new).
      fst c \<in> set (views s) \<and> fst c \<in> {kToolbar, kTabStrip, kBookmarksBar}"
    using old new_keys by force
  ultimately show ?thesis
    by (simp add: surfaces_inv_def calls vs)
qed

lemma surfaces_inv_step:
  assumes "controller_inv s" and "surfaces_inv s" and "can_occur e s"
  shows "surfaces_inv (step e s)"
proof (cases e)
  case (Call_SetEnabled enabled)
  then show ?thesis
    using assms(2) surfaces_inv_SetEnabled_False [of s]
    by (cases enabled) (auto simp: surfaces_inv_def dest: SetEnabled_True_disabled)
next
  case (Call_OnFullscreenStateChanged f)
  then show ?thesis
    using assms(2) surfaces_inv_SetEnabled_False [of s]
    by (cases f) (auto simp: surfaces_inv_def OnFullscreenStateChanged_def
        dest: SetEnabled_True_disabled)
next
  case (AnimationProgressed v)
  with assms have "state s \<noteq> kDisabled"
    by (auto simp: controller_inv_def)
  then show ?thesis
    using assms(2)
    by (auto simp: AnimationProgressed surfaces_inv_def OnAnimationProgressed_def
        SetUIElementVisible_def Let_def)
next
  case AnimationEnded
  with assms have "state s \<noteq> kDisabled"
    by (auto simp: controller_inv_def)
  then show ?thesis
    using assms(2)
    by (auto simp: AnimationEnded surfaces_inv_def OnAnimationCompleted_def
        SetAllUIElementsVisible_def SetUIElementVisible_def Let_def)
qed (use assms(2) in \<open>simp_all add: surfaces_inv_def OnKeyboardActivity_def
      TriggerAutoHideTimerForTesting_def OnAutoHideTimer_def SetAnimationDurationForTesting_def
      SetAutoHideDelayForTesting_def AddObserver_def RemoveObserver_def\<close>)

lemma surfaces_inv_run:
  "controller_inv s \<Longrightarrow> surfaces_inv s \<Longrightarrow> admissible s es \<Longrightarrow> surfaces_inv (run s es)"
  by (induction es arbitrary: s) (simp_all add: surfaces_inv_step controller_inv_step)

lemma surfaces_inv_new: "surfaces_inv (ImmersiveFullscreenController prefs bounds vs)"
  by (simp add: surfaces_inv_def ImmersiveFullscreenController_def InitializeFromPrefs_def
      last_command_def Let_def)

lemma SetEnabled_False_effect:
  assumes "state s \<noteq> kDisabled"
  shows "state (SetEnabled False s) = kDisabled"
    and "\<not> auto_hide_timer (SetEnabled False s)"
    and "animation_state (SetEnabled False s) = kNone"
    and "delivered (SetEnabled False s) =
           delivered s @ broadcast (observers s) (OnImmersiveModeToggled False)"
    and "e \<in> {kToolbar, kTabStrip, kBookmarksBar} \<Longrightarrow> e \<in> set (views s) \<Longrightarrow>
           last_command (set_visible_calls (SetEnabled False s)) e = Some True"
  using assms
  by (auto simp: SetEnabled_def IsEnabled_def Let_def CancelAutoHide_def CompleteAnimation_def
      SetAllUIElementsVisible_def SetUIElementVisible_def NotifyModeToggled_def
      last_command_def)

lemma SetEnabled_False_stops_animation:
  assumes "controller_inv s" and "state s \<noteq> kDisabled"
  shows "\<not> is_animating (animation (SetEnabled False s))"
  using assms
  by (auto simp: SetEnabled_def IsEnabled_def Let_def CancelAutoHide_def CompleteAnimation_def
      SetAllUIElementsVisible_def SetUIElementVisible_def NotifyModeToggled_def
      controller_inv_def End_def)

text \<open>
  Claim C6, as the code has it. After every run from a new controller, the mode \<open>kDisabled\<close>
  implies that no timer is running and no animation is in flight; when the animation called
  back only while it was running, no element was last told to hide either (each was last told
  to be visible, or never told anything, as in a new controller). \<open>SetEnabled(false)\<close> on an
  enabled state leaves the mode \<open>kDisabled\<close>, no timer, no animation, and \<open>SetVisible(true)\<close> as
  the last call on the toolbar, the tab strip and the bookmarks bar, where they have a view.
  The converse of the first part is not claimed.
\<close>

theorem disabled_is_quiescent:
  assumes "s = run (ImmersiveFullscreenController prefs bounds vs) evs"
  shows "(state s = kDisabled \<longrightarrow>
            \<not> auto_hide_timer s \<and> animation_state s = kNone \<and> \<not> is_animating (animation s)) \<and>
         (state s = kDisabled \<and> admissible (ImmersiveFullscreenController prefs bounds vs) evs \<longrightarrow>
            (\<forall>e. last_command (set_visible_calls s) e \<noteq> Some False)) \<and>
         (state s \<noteq> kDisabled \<longrightarrow>
            state (SetEnabled False s) = kDisabled \<and>
            \<not> auto_hide_timer (SetEnabled False s) \<and>
            animation_state (SetEnabled False s) = kNone \<and>
            \<not> is_animating (animation (SetEnabled False s)) \<and>
            (\<forall>e \<in> {kToolbar, kTabStrip, kBookmarksBar}. e \<in> set (views s) \<longrightarrow>
               last_command (set_visible_calls (SetEnabled False s)) e = Some True))"
proof -
  have inv: "controller_inv s"
    unfolding assms by (rule controller_inv_run) (rule controller_inv_new)
  then have "state s = kDisabled \<longrightarrow>
      \<not> auto_hide_timer s \<and> animation_state s = kNone \<and> \<not> is_animating (animation s)"
    by (auto simp: controller_inv_def)
  moreover have "\<forall>e. last_command (set_visible_calls s) e \<noteq> Some False"
    if "state s = kDisabled" "admissible (ImmersiveFullscreenController prefs bounds vs) evs"
  proof -
    have "surfaces_inv s"
      unfolding assms using that(2)
      by (intro surfaces_inv_run controller_inv_new surfaces_inv_new)
    with that(1) show ?thesis by (simp add: surfaces_inv_def)
  qed
  moreover have "state s \<noteq> kDisabled \<longrightarrow>
      state (SetEnabled False s) = kDisabled \<and>
      \<not> auto_hide_timer (SetEnabled False s) \<and>
      animation_state (SetEnabled False s) = kNone \<and>
      \<not> is_animating (animation (SetEnabled False s)) \<and>
      (\<forall>e \<in> {kToolbar, kTabStrip, kBookmarksBar}. e \<in> set (views s) \<longrightarrow>
         last_command (set_visible_calls (SetEnabled False s)) e = Some True)"
    using SetEnabled_False_effect [of s] SetEnabled_False_stops_animation [OF inv]
    by blast
  ultimately show ?thesis by blast
qed

text \<open>
  A run of the fixture that ends revealed with the timer running and the show animation
  in flight, disabled from there; and a run in which a callback of the running animation
  hides the views before \<open>SetEnabled(false)\<close> is called.
\<close>

theorem disabled_is_quiescent_witness:
  "state (run (ImmersiveFullscreenController test_prefs test_bounds [kToolbar, kTabStrip, kBookmarksBar])
      [Call_SetEnabled True, Call_OnMouseMoved \<lparr>pt_x = 600, pt_y = 2\<rparr>,
       Call_OnMouseMoved \<lparr>pt_x = 600, pt_y = 100\<rparr>]) = kRevealed \<and>
   auto_hide_timer (run (ImmersiveFullscreenController test_prefs test_bounds [kToolbar, kTabStrip, kBookmarksBar])
      [Call_SetEnabled True, Call_OnMouseMoved \<lparr>pt_x = 600, pt_y = 2\<rparr>,
       Call_OnMouseMoved \<lparr>pt_x = 600, pt_y = 100\<rparr>]) \<and>
   animation_state (run (ImmersiveFullscreenController test_prefs test_bounds [kToolbar, kTabStrip, kBookmarksBar])
      [Call_SetEnabled True, Call_OnMouseMoved \<lparr>pt_x = 600, pt_y = 2\<rparr>,
       Call_OnMouseMoved \<lparr>pt_x = 600, pt_y = 100\<rparr>]) = kShowingUI \<and>
   state (SetEnabled False (run (ImmersiveFullscreenController test_prefs test_bounds [kToolbar, kTabStrip, kBookmarksBar])
      [Call_SetEnabled True, Call_OnMouseMoved \<lparr>pt_x = 600, pt_y = 2\<rparr>,
       Call_OnMouseMoved \<lparr>pt_x = 600, pt_y = 100\<rparr>])) = kDisabled \<and>
   \<not> auto_hide_timer (SetEnabled False (run (ImmersiveFullscreenController test_prefs test_bounds [kToolbar, kTabStrip, kBookmarksBar])
      [Call_SetEnabled True, Call_OnMouseMoved \<lparr>pt_x = 600, pt_y = 2\<rparr>,
       Call_OnMouseMoved \<lparr>pt_x = 600, pt_y = 100\<rparr>])) \<and>
   animation_state (SetEnabled False (run (ImmersiveFullscreenController test_prefs test_bounds [kToolbar, kTabStrip, kBookmarksBar])
      [Call_SetEnabled True, Call_OnMouseMoved \<lparr>pt_x = 600, pt_y = 2\<rparr>,
       Call_OnMouseMoved \<lparr>pt_x = 600, pt_y = 100\<rparr>])) = kNone \<and>
   last_command (set_visible_calls (SetEnabled False (run (ImmersiveFullscreenController test_prefs test_bounds [kToolbar, kTabStrip, kBookmarksBar])
      [Call_SetEnabled True, Call_OnMouseMoved \<lparr>pt_x = 600, pt_y = 2\<rparr>,
       Call_OnMouseMoved \<lparr>pt_x = 600, pt_y = 100\<rparr>]))) kToolbar = Some True \<and>
   admissible (ImmersiveFullscreenController test_prefs test_bounds [kToolbar, kTabStrip, kBookmarksBar])
      [Call_SetEnabled True, Call_OnMouseMoved \<lparr>pt_x = 600, pt_y = 2\<rparr>,
       AnimationProgressed (1 / 5), Call_SetEnabled False] \<and>
   last_command (set_visible_calls (run (ImmersiveFullscreenController test_prefs test_bounds [kToolbar, kTabStrip, kBookmarksBar])
      [Call_SetEnabled True, Call_OnMouseMoved \<lparr>pt_x = 600, pt_y = 2\<rparr>,
       AnimationProgressed (1 / 5)])) kToolbar = Some False \<and>
   state (run (ImmersiveFullscreenController test_prefs test_bounds [kToolbar, kTabStrip, kBookmarksBar])
      [Call_SetEnabled True, Call_OnMouseMoved \<lparr>pt_x = 600, pt_y = 2\<rparr>,
       AnimationProgressed (1 / 5), Call_SetEnabled False]) = kDisabled \<and>
   \<not> auto_hide_timer (run (ImmersiveFullscreenController test_prefs test_bounds [kToolbar, kTabStrip, kBookmarksBar])
      [Call_SetEnabled True, Call_OnMouseMoved \<lparr>pt_x = 600, pt_y = 2\<rparr>,
       AnimationProgressed (1 / 5), Call_SetEnabled False]) \<and>
   last_command (set_visible_calls (run (ImmersiveFullscreenController test_prefs test_bounds [kToolbar, kTabStrip, kBookmarksBar])
      [Call_SetEnabled True, Call_OnMouseMoved \<lparr>pt_x = 600, pt_y = 2\<rparr>,
       AnimationProgressed (1 / 5), Call_SetEnabled False])) kToolbar = Some True"
  using disabled_is_quiescent [OF refl, where prefs = test_prefs and bounds = test_bounds
      and vs = "[kToolbar, kTabStrip, kBookmarksBar]"
      and evs = "[Call_SetEnabled True, Call_OnMouseMoved \<lparr>pt_x = 600, pt_y = 2\<rparr>,
                  Call_OnMouseMoved \<lparr>pt_x = 600, pt_y = 100\<rparr>]"]
    disabled_is_quiescent [OF refl, where prefs = test_prefs and bounds = test_bounds
      and vs = "[kToolbar, kTabStrip, kBookmarksBar]"
      and evs = "[Call_SetEnabled True, Call_OnMouseMoved \<lparr>pt_x = 600, pt_y = 2\<rparr>,
                  AnimationProgressed (1 / 5), Call_SetEnabled False]"]
  by (simp add: controller_defs test_defs last_command_def Let_def)

text \<open>
  Revealed by the pointer, with the animation ended: no timer is running, the animation
  state is \<open>kNone\<close> and the three views were last told to be visible, yet the mode is
  \<open>kRevealed\<close>. And the fixture itself is disabled with no call made on any view.
\<close>

theorem revealed_and_idle_is_not_disabled:
  "state (run test_controller
      [Call_SetEnabled True, Call_OnMouseMoved \<lparr>pt_x = 600, pt_y = 2\<rparr>, AnimationEnded]) = kRevealed \<and>
   \<not> auto_hide_timer (run test_controller
      [Call_SetEnabled True, Call_OnMouseMoved \<lparr>pt_x = 600, pt_y = 2\<rparr>, AnimationEnded]) \<and>
   animation_state (run test_controller
      [Call_SetEnabled True, Call_OnMouseMoved \<lparr>pt_x = 600, pt_y = 2\<rparr>, AnimationEnded]) = kNone \<and>
   last_command (set_visible_calls (run test_controller
      [Call_SetEnabled True, Call_OnMouseMoved \<lparr>pt_x = 600, pt_y = 2\<rparr>, AnimationEnded])) kToolbar = Some True \<and>
   last_command (set_visible_calls (run test_controller
      [Call_SetEnabled True, Call_OnMouseMoved \<lparr>pt_x = 600, pt_y = 2\<rparr>, AnimationEnded])) kTabStrip = Some True \<and>
   last_command (set_visible_calls (run test_controller
      [Call_SetEnabled True, Call_OnMouseMoved \<lparr>pt_x = 600, pt_y = 2\<rparr>, AnimationEnded])) kBookmarksBar = Some True \<and>
   state test_controller = kDisabled \<and>
   last_command (set_visible_calls test_controller) kToolbar = None"
  by (simp add: controller_defs test_defs last_command_def Let_def)

subsection \<open>C7: the order of the callbacks on hover\<close>

lemma delivered_to_append [simp]:
  "delivered_to ob (xs @ ys) = delivered_to ob xs @ delivered_to ob ys"
  by (simp add: delivered_to_def)

lemma delivered_to_broadcast_absent:
  "ob \<notin> set os \<Longrightarrow> delivered_to ob (broadcast os n) = []"
  by (induction os) (auto simp: delivered_to_def broadcast_def)

lemma delivered_to_broadcast:
  "distinct os \<Longrightarrow> ob \<in> set os \<Longrightarrow> delivered_to ob (broadcast os n) = [n]"
proof (induction os)
  case Nil
  then show ?case by simp
next
  case (Cons a os)
  show ?case
  proof (cases "a = ob")
    case True
    with Cons.prems have "ob \<notin> set os" by simp
    then have "delivered_to ob (broadcast os n) = []"
      by (rule delivered_to_broadcast_absent)
    with True show ?thesis
      by (simp add: delivered_to_def broadcast_def)
  next
    case False
    with Cons have "delivered_to ob (broadcast os n) = [n]" by simp
    with False show ?thesis
      by (simp add: delivered_to_def broadcast_def)
  qed
qed

lemma OnMouseMoved_enters:
  assumes "state s = kEnabled" and "\<not> mouse_in_top_edge s" and "\<not> should_show_ui s"
    and "IsMouseInTopEdge s p"
  shows "delivered (OnMouseMoved p s) =
           delivered s @ broadcast (observers s) (OnMouseHoverStateChanged True)
             @ broadcast (observers s) (OnImmersiveUIVisibilityChanged True)"
    and "state (OnMouseMoved p s) = kRevealed"
  using assms
  by (simp_all add: OnMouseMoved_def Let_def RevealUI_def IsUIVisible_def CancelAutoHide_def
      NotifyMouseHoverChanged_def NotifyVisibilityChanged_def)

lemma OnMouseMoved_already_inside:
  assumes "controller_inv s" and "state s = kEnabled" and "mouse_in_top_edge s"
    and "IsMouseInTopEdge s p"
  shows "OnMouseMoved p s = s"
  using assms
  by (cases s) (auto simp: controller_inv_def OnMouseMoved_def Let_def)

text \<open>
  Claim C7, as the code has it. After every run from a new controller that ends in the mode
  \<open>kEnabled\<close>, \<open>OnMouseMoved\<close> to a point inside the top edge does one of two things. When the
  controller last saw the pointer outside the top edge, it delivers to every registered
  observer exactly \<open>OnMouseHoverStateChanged(true)\<close> and then
  \<open>OnImmersiveUIVisibilityChanged(true)\<close>, nothing to anyone else, and the mode becomes
  \<open>kRevealed\<close>. When the controller's pointer flag is already set, the call changes nothing and
  calls no observer.
\<close>

theorem OnMouseMoved_hover_then_visibility:
  assumes "s = run (ImmersiveFullscreenController prefs bounds vs) evs"
    and "state s = kEnabled" and "IsMouseInTopEdge s p"
  shows "(\<not> mouse_in_top_edge s \<and> ob \<in> set (observers s) \<longrightarrow>
            delivered_to ob (delivered (OnMouseMoved p s)) =
              delivered_to ob (delivered s) @
                [OnMouseHoverStateChanged True, OnImmersiveUIVisibilityChanged True]) \<and>
         (\<not> mouse_in_top_edge s \<and> ob \<notin> set (observers s) \<longrightarrow>
            delivered_to ob (delivered (OnMouseMoved p s)) = delivered_to ob (delivered s)) \<and>
         (\<not> mouse_in_top_edge s \<longrightarrow> state (OnMouseMoved p s) = kRevealed) \<and>
         (mouse_in_top_edge s \<longrightarrow> OnMouseMoved p s = s)"
proof -
  have inv: "controller_inv s"
    unfolding assms(1) by (rule controller_inv_run) (rule controller_inv_new)
  then have dist: "distinct (observers s)"
    by (simp add: controller_inv_def)
  have moved: "delivered (OnMouseMoved p s) =
      delivered s @ broadcast (observers s) (OnMouseHoverStateChanged True)
        @ broadcast (observers s) (OnImmersiveUIVisibilityChanged True)"
    and revealed: "state (OnMouseMoved p s) = kRevealed"
    if "\<not> mouse_in_top_edge s"
  proof -
    from inv that have "\<not> should_show_ui s"
      by (simp add: controller_inv_def)
    from OnMouseMoved_enters [OF assms(2) that this assms(3)]
    show "delivered (OnMouseMoved p s) =
      delivered s @ broadcast (observers s) (OnMouseHoverStateChanged True)
        @ broadcast (observers s) (OnImmersiveUIVisibilityChanged True)"
      and "state (OnMouseMoved p s) = kRevealed"
      by simp_all
  qed
  have "delivered_to ob (delivered (OnMouseMoved p s)) =
      delivered_to ob (delivered s) @
        [OnMouseHoverStateChanged True, OnImmersiveUIVisibilityChanged True]"
    if "\<not> mouse_in_top_edge s" "ob \<in> set (observers s)"
    using that by (simp add: moved delivered_to_broadcast [OF dist])
  moreover have "delivered_to ob (delivered (OnMouseMoved p s)) = delivered_to ob (delivered s)"
    if "\<not> mouse_in_top_edge s" "ob \<notin> set (observers s)"
    using that by (simp add: moved delivered_to_broadcast_absent)
  moreover have "OnMouseMoved p s = s" if "mouse_in_top_edge s"
    using inv assms(2) that assms(3) by (rule OnMouseMoved_already_inside)
  ultimately show ?thesis
    using revealed by blast
qed

text \<open>
  The test \<open>RevealUIOnMouseHover\<close>: enabled, one observer, the pointer moves to (600, 2); an
  observer that is not registered receives nothing. And a run that ends in the mode
  \<open>kEnabled\<close> with the pointer flag set: revealed by the pointer and hidden by
  \<open>HideUIImmediately\<close>.
\<close>

theorem OnMouseMoved_hover_then_visibility_witness:
  "state (run (ImmersiveFullscreenController test_prefs test_bounds [kToolbar, kTabStrip, kBookmarksBar])
      [Call_SetEnabled True, Call_AddObserver 1]) = kEnabled \<and>
   \<not> mouse_in_top_edge (run (ImmersiveFullscreenController test_prefs test_bounds [kToolbar, kTabStrip, kBookmarksBar])
      [Call_SetEnabled True, Call_AddObserver 1]) \<and>
   IsMouseInTopEdge (run (ImmersiveFullscreenController test_prefs test_bounds [kToolbar, kTabStrip, kBookmarksBar])
      [Call_SetEnabled True, Call_AddObserver 1]) \<lparr>pt_x = 600, pt_y = 2\<rparr> \<and>
   observers (run (ImmersiveFullscreenController test_prefs test_bounds [kToolbar, kTabStrip, kBookmarksBar])
      [Call_SetEnabled True, Call_AddObserver 1]) = [1] \<and>
   delivered_to 1 (delivered (OnMouseMoved \<lparr>pt_x = 600, pt_y = 2\<rparr>
     (run (ImmersiveFullscreenController test_prefs test_bounds [kToolbar, kTabStrip, kBookmarksBar])
      [Call_SetEnabled True, Call_AddObserver 1]))) =
     [OnMouseHoverStateChanged True, OnImmersiveUIVisibilityChanged True] \<and>
   delivered_to 2 (delivered (OnMouseMoved \<lparr>pt_x = 600, pt_y = 2\<rparr>
     (run (ImmersiveFullscreenController test_prefs test_bounds [kToolbar, kTabStrip, kBookmarksBar])
      [Call_SetEnabled True, Call_AddObserver 1]))) = [] \<and>
   state (OnMouseMoved \<lparr>pt_x = 600, pt_y = 2\<rparr>
     (run (ImmersiveFullscreenController test_prefs test_bounds [kToolbar, kTabStrip, kBookmarksBar])
      [Call_SetEnabled True, Call_AddObserver 1])) = kRevealed \<and>
   state (run (ImmersiveFullscreenController test_prefs test_bounds [kToolbar, kTabStrip, kBookmarksBar])
      [Call_SetEnabled True, Call_OnMouseMoved \<lparr>pt_x = 600, pt_y = 2\<rparr>,
       Call_HideUIImmediately]) = kEnabled \<and>
   mouse_in_top_edge (run (ImmersiveFullscreenController test_prefs test_bounds [kToolbar, kTabStrip, kBookmarksBar])
      [Call_SetEnabled True, Call_OnMouseMoved \<lparr>pt_x = 600, pt_y = 2\<rparr>,
       Call_HideUIImmediately]) \<and>
   state (OnMouseMoved \<lparr>pt_x = 600, pt_y = 3\<rparr>
     (run (ImmersiveFullscreenController test_prefs test_bounds [kToolbar, kTabStrip, kBookmarksBar])
      [Call_SetEnabled True, Call_OnMouseMoved \<lparr>pt_x = 600, pt_y = 2\<rparr>,
       Call_HideUIImmediately])) = kEnabled"
  using OnMouseMoved_hover_then_visibility [OF refl, where prefs = test_prefs
      and bounds = test_bounds and vs = "[kToolbar, kTabStrip, kBookmarksBar]"
      and evs = "[Call_SetEnabled True, Call_AddObserver 1]"
      and p = "\<lparr>pt_x = 600, pt_y = 2\<rparr>" and ob = 1]
    OnMouseMoved_hover_then_visibility [OF refl, where prefs = test_prefs
      and bounds = test_bounds and vs = "[kToolbar, kTabStrip, kBookmarksBar]"
      and evs = "[Call_SetEnabled True, Call_AddObserver 1]"
      and p = "\<lparr>pt_x = 600, pt_y = 2\<rparr>" and ob = 2]
    OnMouseMoved_hover_then_visibility [OF refl, where prefs = test_prefs
      and bounds = test_bounds and vs = "[kToolbar, kTabStrip, kBookmarksBar]"
      and evs = "[Call_SetEnabled True, Call_OnMouseMoved \<lparr>pt_x = 600, pt_y = 2\<rparr>,
                  Call_HideUIImmediately]"
      and p = "\<lparr>pt_x = 600, pt_y = 3\<rparr>" and ob = 1]
  by (simp add: controller_defs test_defs delivered_to_def Let_def)

text \<open>
  The fixture after the pointer entered the top edge, the mode was switched off, the pointer
  left, the mode was switched on again and the interface was hidden: the mode is \<open>kEnabled\<close>,
  the pointer is outside the top edge, and a move into it delivers nothing to the registered
  observer and leaves the interface hidden.
\<close>

theorem OnMouseMoved_into_zone_with_stale_flag:
  "state stale_hover = kEnabled \<and>
   observers stale_hover = [1] \<and>
   IsMouseInTopEdge stale_hover \<lparr>pt_x = 600, pt_y = 2\<rparr> \<and>
   delivered (OnMouseMoved \<lparr>pt_x = 600, pt_y = 2\<rparr> stale_hover) = delivered stale_hover \<and>
   \<not> IsUIVisible (OnMouseMoved \<lparr>pt_x = 600, pt_y = 2\<rparr> stale_hover)"
  by (simp add: stale_hover_def controller_defs test_defs Let_def)

subsection \<open>C8: \<open>SetEnabled(true)\<close> twice\<close>

lemma times_delivered_Nil [simp]: "times_delivered ob n [] = 0"
  by (simp add: times_delivered_def)

lemma times_delivered_append [simp]:
  "times_delivered ob n (xs @ ys) = times_delivered ob n xs + times_delivered ob n ys"
  by (simp add: times_delivered_def)

lemma times_delivered_broadcast_other:
  "m \<noteq> n \<Longrightarrow> times_delivered ob n (broadcast os m) = 0"
  by (induction os) (auto simp: times_delivered_def broadcast_def)

lemma times_delivered_broadcast_absent:
  "ob \<notin> set os \<Longrightarrow> times_delivered ob n (broadcast os m) = 0"
  by (induction os) (auto simp: times_delivered_def broadcast_def)

lemma times_delivered_broadcast:
  "distinct os \<Longrightarrow> ob \<in> set os \<Longrightarrow> times_delivered ob n (broadcast os n) = 1"
proof (induction os)
  case Nil
  then show ?case by simp
next
  case (Cons a os)
  show ?case
  proof (cases "a = ob")
    case True
    with Cons.prems have "ob \<notin> set os" by simp
    then have "times_delivered ob n (broadcast os n) = 0"
      by (rule times_delivered_broadcast_absent)
    with True show ?thesis
      by (simp add: times_delivered_def broadcast_def)
  next
    case False
    with Cons have "times_delivered ob n (broadcast os n) = 1" by simp
    with False show ?thesis
      by (simp add: times_delivered_def broadcast_def)
  qed
qed

lemma SetEnabled_True_refused:
  "state s \<noteq> kDisabled \<or> ShouldDisableImmersiveMode s \<Longrightarrow> SetEnabled True s = s"
  by (auto simp: SetEnabled_def IsEnabled_def)

lemma SetEnabled_True_enables:
  assumes "state s = kDisabled" and "\<not> ShouldDisableImmersiveMode s"
  shows "state (SetEnabled True s) \<noteq> kDisabled"
    and "delivered (SetEnabled True s) =
           delivered s @
           (if should_show_ui s \<or> address_bar_focused s
            then broadcast (observers s) (OnImmersiveUIVisibilityChanged True) else []) @
           broadcast (observers s) (OnImmersiveModeToggled True)"
  using assms
  by (simp_all add: SetEnabled_def IsEnabled_def Let_def RevealUI_def IsUIVisible_def
      CancelAutoHide_def NotifyModeToggled_def NotifyVisibilityChanged_def)

text \<open>
  Claim C8, as the code has it. A second \<open>SetEnabled(true)\<close> never changes what the first
  one left. From a disabled state in which the legacy preference does not forbid it, the two
  calls deliver \<open>OnImmersiveModeToggled(true)\<close> exactly once to every registered observer.
  From an enabled state, or when the legacy preference forbids it, the two calls change
  nothing and call no observer.
\<close>

theorem SetEnabled_twice:
  "SetEnabled True (SetEnabled True s) = SetEnabled True s \<and>
   (state s = kDisabled \<and> \<not> ShouldDisableImmersiveMode s \<and>
    distinct (observers s) \<and> ob \<in> set (observers s) \<longrightarrow>
      times_delivered ob (OnImmersiveModeToggled True)
          (delivered (SetEnabled True (SetEnabled True s))) =
        times_delivered ob (OnImmersiveModeToggled True) (delivered s) + 1) \<and>
   (state s \<noteq> kDisabled \<or> ShouldDisableImmersiveMode s \<longrightarrow>
      SetEnabled True (SetEnabled True s) = s)"
proof -
  have twice: "SetEnabled True (SetEnabled True s) = SetEnabled True s"
  proof (cases "state s \<noteq> kDisabled \<or> ShouldDisableImmersiveMode s")
    case True
    then show ?thesis by (simp add: SetEnabled_True_refused)
  next
    case False
    then have "state (SetEnabled True s) \<noteq> kDisabled"
      by (simp add: SetEnabled_True_enables)
    then show ?thesis by (simp add: SetEnabled_True_refused)
  qed
  have once: "times_delivered ob (OnImmersiveModeToggled True) (delivered (SetEnabled True s)) =
      times_delivered ob (OnImmersiveModeToggled True) (delivered s) + 1"
    if "state s = kDisabled" "\<not> ShouldDisableImmersiveMode s"
      "distinct (observers s)" "ob \<in> set (observers s)"
    using that
    by (simp add: SetEnabled_True_enables times_delivered_broadcast
        times_delivered_broadcast_other)
  have refused: "SetEnabled True s = s"
    if "state s \<noteq> kDisabled \<or> ShouldDisableImmersiveMode s"
    using that by (rule SetEnabled_True_refused)
  show ?thesis
    using twice once refused by simp
qed

text \<open>
  The fixture with one observer, disabled and then enabled.
\<close>

theorem SetEnabled_twice_witness:
  "state (AddObserver 1 test_controller) = kDisabled \<and>
   times_delivered 1 (OnImmersiveModeToggled True)
     (delivered (SetEnabled True (SetEnabled True (AddObserver 1 test_controller)))) = 1 \<and>
   SetEnabled True (SetEnabled True (AddObserver 1 test_controller)) =
     SetEnabled True (AddObserver 1 test_controller) \<and>
   state (SetEnabled True (AddObserver 1 test_controller)) = kEnabled \<and>
   SetEnabled True (SetEnabled True (SetEnabled True (AddObserver 1 test_controller))) =
     SetEnabled True (AddObserver 1 test_controller)"
  using SetEnabled_twice [of "AddObserver 1 test_controller" 1]
    SetEnabled_twice [of "SetEnabled True (AddObserver 1 test_controller)" 1]
  by (simp add: controller_defs test_defs times_delivered_def Let_def)

text \<open>
  From the enabled fixture, two calls of \<open>SetEnabled(true)\<close> deliver nothing to the
  registered observer.
\<close>

theorem SetEnabled_twice_when_enabled:
  "state (SetEnabled True (AddObserver 1 test_controller)) = kEnabled \<and>
   observers (SetEnabled True (AddObserver 1 test_controller)) = [1] \<and>
   delivered (SetEnabled True (SetEnabled True (SetEnabled True (AddObserver 1 test_controller)))) =
     delivered (SetEnabled True (AddObserver 1 test_controller))"
  by (simp add: controller_defs test_defs Let_def)

subsection \<open>C9: the introduction preference\<close>

text \<open>
  Claim C9. A call of \<open>SetEnabled(true)\<close> that takes a disabled controller to an enabled
  mode leaves \<open>kHasSeenIntroduction\<close> set in the preference store, and changes no other
  preference.
\<close>

theorem SetEnabled_records_introduction:
  assumes "\<not> IsEnabled s" and "IsEnabled (SetEnabled True s)"
  shows "kHasSeenIntroduction (pref_service (SetEnabled True s)) \<and>
         pref_service (SetEnabled True s) = (pref_service s)\<lparr>kHasSeenIntroduction := True\<rparr>"
proof -
  have "\<not> ShouldDisableImmersiveMode s"
    using assms by (auto simp: SetEnabled_def)
  then have "pref_service (SetEnabled True s) = (pref_service s)\<lparr>kHasSeenIntroduction := True\<rparr>"
    using assms(1)
    by (simp add: SetEnabled_def Let_def RevealUI_def IsEnabled_def CancelAutoHide_def)
  then show ?thesis by simp
qed

text \<open>
  The test \<open>IntroductionTrackingPreference\<close>: the preference is not set in the fixture and
  is set after \<open>SetEnabled(true)\<close>.
\<close>

theorem SetEnabled_records_introduction_witness:
  "\<not> IsEnabled test_controller \<and> IsEnabled (SetEnabled True test_controller) \<and>
   \<not> kHasSeenIntroduction (pref_service test_controller) \<and>
   kHasSeenIntroduction (pref_service (SetEnabled True test_controller))"
  using SetEnabled_records_introduction [of test_controller]
  by (simp add: controller_defs test_defs Let_def)

subsection \<open>C10: a window resize in the page-side handler\<close>

lemma cancelAutoHide_fields [simp]:
  "isEnabled (cancelAutoHide h) = isEnabled h"
  "isUIVisible (cancelAutoHide h) = isUIVisible h"
  "next_timeout (cancelAutoHide h) = next_timeout h"
  "addressBarIsActiveElement (cancelAutoHide h) = addressBarIsActiveElement h"
  "dispatched (cancelAutoHide h) = dispatched h"
  by (simp_all add: cancelAutoHide_def split: option.split)

lemma revealUI_fields [simp]:
  "isEnabled (revealUI r h) = isEnabled h"
  "isEnabled h \<Longrightarrow> isUIVisible (revealUI r h)"
  "next_timeout (revealUI r h) = next_timeout h"
  "addressBarIsActiveElement (revealUI r h) = addressBarIsActiveElement h"
  by (simp_all add: revealUI_def dispatchUIVisibilityEvent_def)

lemma scheduleAutoHide_fields [simp]:
  "isEnabled (scheduleAutoHide h) = isEnabled h"
  "isUIVisible (scheduleAutoHide h) = isUIVisible h"
  "addressBarIsActiveElement (scheduleAutoHide h) = addressBarIsActiveElement h"
  "autoHideTimer (scheduleAutoHide h) = Some (next_timeout h)"
  "next_timeout h \<in> set (timeouts (scheduleAutoHide h))"
  by (simp_all add: scheduleAutoHide_def Let_def)

lemma timeout_expires_hides:
  assumes "t \<in> set (timeouts h)" and "isEnabled h" and "\<not> isAddressBarFocused h"
  shows "\<not> isUIVisible (timeout_expires t h)"
  using assms
  by (simp add: timeout_expires_def hideUI_def isAddressBarFocused_def
      dispatchUIVisibilityEvent_def)

text \<open>
  Claim C10. On an enabled handler, \<open>handleWindowResize\<close> leaves the interface visible and a
  fresh timeout pending, held in \<open>autoHideTimer\<close>; when that timeout expires with the address
  bar not focused, the interface is hidden again.
\<close>

theorem handleWindowResize_reveals_then_hides:
  assumes "isEnabled h"
  shows "isUIVisible (handleWindowResize h) \<and>
         autoHideTimer (handleWindowResize h) = Some (next_timeout h) \<and>
         next_timeout h \<in> set (timeouts (handleWindowResize h)) \<and>
         (\<not> isAddressBarFocused h \<longrightarrow>
            \<not> isUIVisible (timeout_expires (next_timeout h) (handleWindowResize h)))"
proof -
  let ?h1 = "revealUI ''window_resize'' (updateTopEdgeBounds h)"
  have resize: "handleWindowResize h = scheduleAutoHide ?h1"
    using assms by (simp add: handleWindowResize_def)
  have h1: "isEnabled ?h1" "isUIVisible ?h1" "next_timeout ?h1 = next_timeout h"
    "isAddressBarFocused ?h1 = isAddressBarFocused h"
    using assms by (simp_all add: updateTopEdgeBounds_def isAddressBarFocused_def)
  have pending: "next_timeout h \<in> set (timeouts (scheduleAutoHide ?h1))"
    using scheduleAutoHide_fields(5) [of ?h1] h1(3) by simp
  have "\<not> isUIVisible (timeout_expires (next_timeout h) (scheduleAutoHide ?h1))"
    if "\<not> isAddressBarFocused h"
    using pending h1 that
    by (intro timeout_expires_hides) (simp_all add: isAddressBarFocused_def)
  then show ?thesis
    using h1 pending by (simp add: resize)
qed

text \<open>
  The hidden handler: the resize reveals it and schedules timeout 2, whose expiry hides
  it.
\<close>

theorem handleWindowResize_reveals_then_hides_witness:
  "isEnabled hidden_handler \<and> \<not> isUIVisible hidden_handler \<and>
   autoHideTimer hidden_handler = Some 1 \<and> timeouts hidden_handler = [] \<and>
   \<not> isAddressBarFocused hidden_handler \<and>
   isUIVisible (handleWindowResize hidden_handler) \<and>
   autoHideTimer (handleWindowResize hidden_handler) = Some 2 \<and>
   timeouts (handleWindowResize hidden_handler) = [2] \<and>
   \<not> isUIVisible (timeout_expires 2 (handleWindowResize hidden_handler))"
  using handleWindowResize_reveals_then_hides [of hidden_handler]
  by (simp add: handler_defs hidden_handler_value Let_def)

end
